theory Spec2Isabelle
  imports Complex_Main
begin

section \<open>The HPIPM interface of ocs2 (hpipm\_catkin/src/HpipmInterface.cpp)\<close>

text \<open>
  The development embeds \<^verbatim>\<open>HpipmInterface.cpp\<close>: the grow-only \<^verbatim>\<open>MemoryBlock\<close>, the
  workspace preparation \<^verbatim>\<open>Impl::initializeMemory\<close>, the transcription and solve call
  \<^verbatim>\<open>Impl::solve\<close> and the stage-0 Riccati reconstruction \<^verbatim>\<open>Impl::getRiccatiZeroStage\<close>.

  Conventions of the embedding:
  \<^item> \<^verbatim>\<open>scalar_t\<close> (a double) is a \<open>real\<close>: arithmetic is exact, there is no rounding and
    no NaN;
  \<^item> sizes and counts (\<^verbatim>\<open>size_t\<close>, and the non-negative \<^verbatim>\<open>int\<close> entries of \<^verbatim>\<open>OcpSize\<close>) are
    natural numbers;
  \<^item> a C++ exception is the flag \<open>Some e\<close> beside the state reached when it was thrown;
    a failed assertion or an out-of-range access ends the run as \<open>Inl e\<close>;
  \<^item> the C allocator and the HPIPM library are not part of the repository: the allocator
    is a small explicit model, HPIPM is a record of functions passed to every operation.
\<close>

datatype error = BadAlloc | AssertionFailed | OutOfRange | EigenAssert

subsection \<open>The C allocator\<close>

text \<open>
  A heap hands out fresh addresses and refuses a request that does not fit into what is
  left of its capacity (\<^verbatim>\<open>malloc\<close> returning \<^verbatim>\<open>nullptr\<close>). A pointer is an address or
  \<open>None\<close> for \<^verbatim>\<open>nullptr\<close>; \<^verbatim>\<open>free(nullptr)\<close> does nothing.
\<close>

type_synonym ptr = "nat option"

record heap =
  next_addr :: nat
  live :: "(nat \<times> nat) list"
  capacity :: nat

definition heap_used :: "heap \<Rightarrow> nat" where
  "heap_used h = sum_list (map snd (live h))"

definition malloc :: "heap \<Rightarrow> nat \<Rightarrow> ptr \<times> heap" where
  "malloc h n =
     (if heap_used h + n \<le> capacity h
      then (Some (next_addr h),
            h\<lparr>next_addr := Suc (next_addr h), live := (next_addr h, n) # live h\<rparr>)
      else (None, h))"

fun free :: "heap \<Rightarrow> ptr \<Rightarrow> heap" where
  "free h None = h"
| "free h (Some p) = h\<lparr>live := filter (\<lambda>e. fst e \<noteq> p) (live h)\<rparr>"

subsection \<open>MemoryBlock\<close>

text \<open>
  \<^verbatim>\<open>
  void reserve(size_t size) {
    if (size > size_) {
      free(ptr_);
      ptr_ = malloc(size);
      if (ptr_ == nullptr) { throw std::bad_alloc(); } else { size_ = size; }
    }
  }
  \<close>
  The default constructor is \<^verbatim>\<open>MemoryBlock(0)\<close>: a null pointer and size 0. The members
  \<^verbatim>\<open>ptr_\<close> and \<^verbatim>\<open>size_\<close> are the fields \<open>blk_ptr\<close> and \<open>blk_size\<close> (a name cannot end
  in an underscore here; the members of \<^verbatim>\<open>Impl\<close> below lose theirs as well).
\<close>

record MemoryBlock =
  blk_ptr :: ptr
  blk_size :: nat

definition MemoryBlock_default :: MemoryBlock where
  "MemoryBlock_default = \<lparr>blk_ptr = None, blk_size = 0\<rparr>"

definition reserve :: "heap \<Rightarrow> MemoryBlock \<Rightarrow> nat \<Rightarrow> error option \<times> heap \<times> MemoryBlock" where
  "reserve h b sz =
     (if sz > blk_size b then
        (let h1 = free h (blk_ptr b);
             (p, h2) = malloc h1 sz;
             b1 = b\<lparr>blk_ptr := p\<rparr>
         in if p = None then (Some BadAlloc, h2, b1)
            else (None, h2, b1\<lparr>blk_size := sz\<rparr>))
      else (None, h, b))"

text \<open>A sequence of \<^verbatim>\<open>reserve\<close> calls on one block; a caller that catches
  \<^verbatim>\<open>std::bad_alloc\<close> goes on with the block as the failed call left it.\<close>

fun reserve_all :: "heap \<Rightarrow> MemoryBlock \<Rightarrow> nat list \<Rightarrow> heap \<times> MemoryBlock" where
  "reserve_all h b [] = (h, b)"
| "reserve_all h b (s # ss) =
     (case reserve h b s of (e, h', b') \<Rightarrow> reserve_all h' b' ss)"

subsection \<open>Eigen vectors and matrices\<close>

text \<open>
  \<^verbatim>\<open>vector_t\<close> is a list of scalars. \<^verbatim>\<open>matrix_t\<close> is a dynamic matrix: its two dimensions
  and its coefficients, kept row by row. Every operation builds its result with
  \<open>mk_mat\<close> from the dimensions Eigen gives the result and a coefficient function.
  Eigen checks the dimensions of the operands with an assertion; the callers below test
  the same conditions before they use an operation and end with \<open>EigenAssert\<close>.
\<close>

type_synonym scalar_t = real
type_synonym vector_t = "scalar_t list"

datatype matrix_t = Matrix (rows: nat) (cols: nat) (coeffs: "scalar_t list list")

definition coeff :: "matrix_t \<Rightarrow> nat \<Rightarrow> nat \<Rightarrow> scalar_t" where
  "coeff M i j = coeffs M ! i ! j"

definition mk_mat :: "nat \<Rightarrow> nat \<Rightarrow> (nat \<Rightarrow> nat \<Rightarrow> scalar_t) \<Rightarrow> matrix_t" where
  "mk_mat r c g = Matrix r c (map (\<lambda>i. map (g i) [0..<c]) [0..<r])"

definition wf_mat :: "matrix_t \<Rightarrow> bool" where
  "wf_mat M \<longleftrightarrow> length (coeffs M) = rows M \<and> (\<forall>row \<in> set (coeffs M). length row = cols M)"

definition dot_upto :: "nat \<Rightarrow> (nat \<Rightarrow> scalar_t) \<Rightarrow> scalar_t" where
  "dot_upto n g = sum_list (map g [0..<n])"

definition vneg :: "vector_t \<Rightarrow> vector_t" where
  "vneg v = map uminus v"

definition vadd :: "vector_t \<Rightarrow> vector_t \<Rightarrow> vector_t" where
  "vadd v w = map (\<lambda>i. v ! i + w ! i) [0..<length v]"

definition vsub :: "vector_t \<Rightarrow> vector_t \<Rightarrow> vector_t" where
  "vsub v w = map (\<lambda>i. v ! i - w ! i) [0..<length v]"

definition mat_vec :: "matrix_t \<Rightarrow> vector_t \<Rightarrow> vector_t" where
  "mat_vec A v = map (\<lambda>i. dot_upto (cols A) (\<lambda>k. coeff A i k * v ! k)) [0..<rows A]"

definition mtranspose :: "matrix_t \<Rightarrow> matrix_t" where
  "mtranspose A = mk_mat (cols A) (rows A) (\<lambda>i j. coeff A j i)"

definition mneg :: "matrix_t \<Rightarrow> matrix_t" where
  "mneg A = mk_mat (rows A) (cols A) (\<lambda>i j. - coeff A i j)"

definition madd :: "matrix_t \<Rightarrow> matrix_t \<Rightarrow> matrix_t" where
  "madd A B = mk_mat (rows A) (cols A) (\<lambda>i j. coeff A i j + coeff B i j)"

definition msub :: "matrix_t \<Rightarrow> matrix_t \<Rightarrow> matrix_t" where
  "msub A B = mk_mat (rows A) (cols A) (\<lambda>i j. coeff A i j - coeff B i j)"

definition mmul :: "matrix_t \<Rightarrow> matrix_t \<Rightarrow> matrix_t" where
  "mmul A B = mk_mat (rows A) (cols B) (\<lambda>i j. dot_upto (cols A) (\<lambda>k. coeff A i k * coeff B k j))"

definition identity :: "nat \<Rightarrow> matrix_t" where
  "identity n = mk_mat n n (\<lambda>i j. if i = j then 1 else 0)"

text \<open>The dimension conditions of Eigen's sum and products.\<close>

definition same_dims :: "matrix_t \<Rightarrow> matrix_t \<Rightarrow> bool" where
  "same_dims A B \<longleftrightarrow> rows A = rows B \<and> cols A = cols B"

definition can_mul :: "matrix_t \<Rightarrow> matrix_t \<Rightarrow> bool" where
  "can_mul A B \<longleftrightarrow> cols A = rows B"

definition can_mul_vec :: "matrix_t \<Rightarrow> vector_t \<Rightarrow> bool" where
  "can_mul_vec A v \<longleftrightarrow> cols A = length v"

text \<open>
  A buffer that a C function has filled in column-major order, read back as the Eigen
  object whose \<^verbatim>\<open>data()\<close> pointer was passed: coefficient \<open>(i, j)\<close> of an \<open>r \<times> c\<close>
  matrix is entry \<open>i + j * r\<close> of the buffer.
\<close>

definition vec_of_buffer :: "nat \<Rightarrow> (nat \<Rightarrow> scalar_t) \<Rightarrow> vector_t" where
  "vec_of_buffer n buf = map buf [0..<n]"

definition mat_of_buffer :: "nat \<Rightarrow> nat \<Rightarrow> (nat \<Rightarrow> scalar_t) \<Rightarrow> matrix_t" where
  "mat_of_buffer r c buf = mk_mat r c (\<lambda>i j. buf (i + j * r))"

text \<open>
  \<^verbatim>\<open>Lr0.inverse()\<close>: Eigen inverts a dynamic matrix through a factorisation with row
  pivoting. In exact arithmetic this is Gauss-Jordan elimination on the rows of
  \<open>[M | I]\<close>: for each column the first row at or below the diagonal with a non-zero
  entry becomes the pivot row, is scaled to a unit pivot and is subtracted from every
  other row. A column without a pivot (a singular matrix) is left as it is, as Eigen
  returns a meaningless result there without failing.
\<close>

definition find_pivot :: "scalar_t list list \<Rightarrow> nat \<Rightarrow> nat option" where
  "find_pivot R c = (case filter (\<lambda>i. R ! i ! c \<noteq> 0) [c..<length R] of [] \<Rightarrow> None | p # _ \<Rightarrow> Some p)"

definition eliminate :: "scalar_t list list \<Rightarrow> nat \<Rightarrow> scalar_t list list" where
  "eliminate R c =
     (case find_pivot R c of
        None \<Rightarrow> R
      | Some p \<Rightarrow>
          (let R1 = R[c := R ! p, p := R ! c];
               prow = map (\<lambda>x. x / (R1 ! c ! c)) (R1 ! c)
           in map (\<lambda>i. if i = c then prow
                        else map (\<lambda>(x, y). x - (R1 ! i ! c) * y) (zip (R1 ! i) prow))
                [0..<length R1]))"

definition inverse_m :: "matrix_t \<Rightarrow> matrix_t" where
  "inverse_m M =
     (let n = rows M;
          aug = map (\<lambda>i. map (coeff M i) [0..<n] @ map (\<lambda>j. if i = j then 1 else 0) [0..<n]) [0..<n];
          red = fold (\<lambda>c R. eliminate R c) [0..<n] aug
      in mk_mat n n (\<lambda>i j. red ! i ! (n + j)))"

subsection \<open>Problem sizes, settings and stage approximations\<close>

text \<open>
  The header that declares \<^verbatim>\<open>OcpSize\<close>, \<^verbatim>\<open>Settings\<close> and the approximation structs is not
  among the sources; the records list the members that \<^verbatim>\<open>HpipmInterface.cpp\<close> reads and
  writes. The members \<^verbatim>\<open>f\<close>, \<^verbatim>\<open>dfdx\<close>, \<^verbatim>\<open>dfdu\<close> of
  \<^verbatim>\<open>VectorFunctionLinearApproximation\<close> carry the prefix \<open>lin_\<close>, the members of
  \<^verbatim>\<open>ScalarFunctionQuadraticApproximation\<close> the prefix \<open>quad_\<close>.
\<close>

datatype hpipm_mode = SPEED_ABS | SPEED | BALANCE | ROBUST

record Settings =
  hpipmMode :: hpipm_mode
  iter_max :: int
  alpha_min :: scalar_t
  mu0 :: scalar_t
  tol_stat :: scalar_t
  tol_eq :: scalar_t
  tol_ineq :: scalar_t
  tol_comp :: scalar_t
  reg_prim :: scalar_t
  warm_start :: int
  pred_corr :: int
  ric_alg :: int

record OcpSize =
  N :: nat
  nu :: "nat list"
  nx :: "nat list"
  nbu :: "nat list"
  nbx :: "nat list"
  ng :: "nat list"
  nsbu :: "nat list"
  nsbx :: "nat list"
  nsg :: "nat list"

record VectorFunctionLinearApproximation =
  lin_f :: vector_t
  lin_dfdx :: matrix_t
  lin_dfdu :: matrix_t

record ScalarFunctionQuadraticApproximation =
  quad_f :: scalar_t
  quad_dfdx :: vector_t
  quad_dfdu :: vector_t
  quad_dfdxx :: matrix_t
  quad_dfdux :: matrix_t
  quad_dfduu :: matrix_t

subsection \<open>The HPIPM structures\<close>

text \<open>
  The C structures of HPIPM hold what the interface puts into them and what it reads
  back. An array of \<^verbatim>\<open>scalar_t*\<close> is a list of optional objects, \<open>None\<close> for
  \<^verbatim>\<open>nullptr\<close>. A \<^verbatim>\<open>create\<close> function lays a structure out in the memory block it is given
  and leaves the values in it as they are.
\<close>

record d_ocp_qp_dim =
  dim_mem :: ptr
  dim_N :: nat
  dim_arrays :: "nat list list"

definition d_ocp_qp_dim_create :: "nat \<Rightarrow> d_ocp_qp_dim \<Rightarrow> ptr \<Rightarrow> d_ocp_qp_dim" where
  "d_ocp_qp_dim_create n d mem = d\<lparr>dim_mem := mem, dim_N := n\<rparr>"

definition d_ocp_qp_dim_set_all ::
  "nat list \<Rightarrow> nat list \<Rightarrow> nat list \<Rightarrow> nat list \<Rightarrow> nat list \<Rightarrow> nat list \<Rightarrow> nat list \<Rightarrow> nat list
     \<Rightarrow> d_ocp_qp_dim \<Rightarrow> d_ocp_qp_dim" where
  "d_ocp_qp_dim_set_all hnx hnu hnbx hnbu hng hnsbx hnsbu hnsg d =
     d\<lparr>dim_arrays := [hnx, hnu, hnbx, hnbu, hng, hnsbx, hnsbu, hnsg]\<rparr>"

text \<open>The arguments \<^verbatim>\<open>A, B, b, Q, S, R, q, r, C, D, lg, ug\<close> of \<^verbatim>\<open>d_ocp_qp_set_all\<close>, one entry per
  stage; \<^verbatim>\<open>solve\<close> passes \<^verbatim>\<open>nullptr\<close> for all the others.\<close>

record ocp_qp_data =
  qp_A :: "matrix_t option list"
  qp_B :: "matrix_t option list"
  qp_b :: "vector_t option list"
  qp_Q :: "matrix_t option list"
  qp_S :: "matrix_t option list"
  qp_R :: "matrix_t option list"
  qp_q :: "vector_t option list"
  qp_r :: "vector_t option list"
  qp_C :: "matrix_t option list"
  qp_D :: "matrix_t option list"
  qp_lg :: "vector_t option list"
  qp_ug :: "vector_t option list"

record d_ocp_qp =
  qp_mem :: ptr
  qp_dim :: d_ocp_qp_dim
  qp_in :: "ocp_qp_data option"

definition d_ocp_qp_create :: "d_ocp_qp_dim \<Rightarrow> d_ocp_qp \<Rightarrow> ptr \<Rightarrow> d_ocp_qp" where
  "d_ocp_qp_create d q mem = q\<lparr>qp_mem := mem, qp_dim := d\<rparr>"

definition d_ocp_qp_set_all :: "ocp_qp_data \<Rightarrow> d_ocp_qp \<Rightarrow> d_ocp_qp" where
  "d_ocp_qp_set_all dat q = q\<lparr>qp_in := Some dat\<rparr>"

record d_ocp_qp_sol =
  sol_mem :: ptr
  sol_dim :: d_ocp_qp_dim
  sol_x :: "nat \<Rightarrow> nat \<Rightarrow> scalar_t"
  sol_u :: "nat \<Rightarrow> nat \<Rightarrow> scalar_t"

definition d_ocp_qp_sol_create :: "d_ocp_qp_dim \<Rightarrow> d_ocp_qp_sol \<Rightarrow> ptr \<Rightarrow> d_ocp_qp_sol" where
  "d_ocp_qp_sol_create d sl mem = sl\<lparr>sol_mem := mem, sol_dim := d\<rparr>"

definition d_ocp_qp_sol_get_x :: "nat \<Rightarrow> d_ocp_qp_sol \<Rightarrow> nat \<Rightarrow> scalar_t" where
  "d_ocp_qp_sol_get_x k sl = sol_x sl k"

definition d_ocp_qp_sol_get_u :: "nat \<Rightarrow> d_ocp_qp_sol \<Rightarrow> nat \<Rightarrow> scalar_t" where
  "d_ocp_qp_sol_get_u k sl = sol_u sl k"

record d_ocp_qp_ipm_arg =
  arg_mem :: ptr
  arg_mode :: hpipm_mode
  arg_iter_max :: int
  arg_alpha_min :: scalar_t
  arg_mu0 :: scalar_t
  arg_tol_stat :: scalar_t
  arg_tol_eq :: scalar_t
  arg_tol_ineq :: scalar_t
  arg_tol_comp :: scalar_t
  arg_reg_prim :: scalar_t
  arg_warm_start :: int
  arg_pred_corr :: int
  arg_ric_alg :: int

definition d_ocp_qp_ipm_arg_create :: "d_ocp_qp_dim \<Rightarrow> d_ocp_qp_ipm_arg \<Rightarrow> ptr \<Rightarrow> d_ocp_qp_ipm_arg" where
  "d_ocp_qp_ipm_arg_create d a mem = a\<lparr>arg_mem := mem\<rparr>"

record d_ocp_qp_ipm_ws =
  ws_mem :: ptr
  ws_status :: int
  ws_ric_P :: "nat \<Rightarrow> nat \<Rightarrow> scalar_t"
  ws_ric_p :: "nat \<Rightarrow> nat \<Rightarrow> scalar_t"
  ws_ric_Lr :: "nat \<Rightarrow> nat \<Rightarrow> scalar_t"
  ws_ric_Ls :: "nat \<Rightarrow> nat \<Rightarrow> scalar_t"
  ws_ric_k :: "nat \<Rightarrow> nat \<Rightarrow> scalar_t"

definition d_ocp_qp_ipm_ws_create ::
  "d_ocp_qp_dim \<Rightarrow> d_ocp_qp_ipm_arg \<Rightarrow> d_ocp_qp_ipm_ws \<Rightarrow> ptr \<Rightarrow> d_ocp_qp_ipm_ws" where
  "d_ocp_qp_ipm_ws_create d a w mem = w\<lparr>ws_mem := mem\<rparr>"

definition d_ocp_qp_ipm_get_status :: "d_ocp_qp_ipm_ws \<Rightarrow> int" where
  "d_ocp_qp_ipm_get_status w = ws_status w"

text \<open>
  What HPIPM computes is not fixed by the interface: the sizes of its memory blocks and
  the interior-point solver are the members of a record that every operation receives.
  The solver reads the problem, the previous solution (for a warm start), the arguments
  and the workspace, and writes the solution and the workspace.
\<close>

record hpipm =
  d_ocp_qp_dim_memsize :: "nat \<Rightarrow> nat"
  d_ocp_qp_memsize :: "d_ocp_qp_dim \<Rightarrow> nat"
  d_ocp_qp_sol_memsize :: "d_ocp_qp_dim \<Rightarrow> nat"
  d_ocp_qp_ipm_arg_memsize :: "d_ocp_qp_dim \<Rightarrow> nat"
  d_ocp_qp_ipm_ws_memsize :: "d_ocp_qp_dim \<Rightarrow> d_ocp_qp_ipm_arg \<Rightarrow> nat"
  d_ocp_qp_ipm_solve ::
    "d_ocp_qp \<Rightarrow> d_ocp_qp_sol \<Rightarrow> d_ocp_qp_ipm_arg \<Rightarrow> d_ocp_qp_ipm_ws
       \<Rightarrow> d_ocp_qp_sol \<times> d_ocp_qp_ipm_ws"

subsection \<open>HpipmInterface::Impl: preparing the workspace\<close>

record Impl =
  settings :: Settings
  ocpSize :: OcpSize
  dimMem :: MemoryBlock
  dim :: d_ocp_qp_dim
  qpMem :: MemoryBlock
  qp :: d_ocp_qp
  qpSolMem :: MemoryBlock
  qpSol :: d_ocp_qp_sol
  ipmArgMem :: MemoryBlock
  arg :: d_ocp_qp_ipm_arg
  ipmMem :: MemoryBlock
  workspace :: d_ocp_qp_ipm_ws

definition isSizeEqual :: "Impl \<Rightarrow> OcpSize \<Rightarrow> bool" where
  "isSizeEqual impl sz \<longleftrightarrow>
     N (ocpSize impl) = N sz \<and>
     nu (ocpSize impl) = nu sz \<and>
     nx (ocpSize impl) = nx sz \<and>
     nbu (ocpSize impl) = nbu sz \<and>
     nbx (ocpSize impl) = nbx sz \<and>
     ng (ocpSize impl) = ng sz \<and>
     nsbu (ocpSize impl) = nsbu sz \<and>
     nsbx (ocpSize impl) = nsbx sz \<and>
     nsg (ocpSize impl) = nsg sz"

definition isSettingsEqual :: "Impl \<Rightarrow> Settings \<Rightarrow> bool" where
  "isSettingsEqual impl st \<longleftrightarrow>
     hpipmMode (settings impl) = hpipmMode st \<and>
     iter_max (settings impl) = iter_max st \<and>
     alpha_min (settings impl) = alpha_min st \<and>
     mu0 (settings impl) = mu0 st \<and>
     tol_stat (settings impl) = tol_stat st \<and>
     tol_eq (settings impl) = tol_eq st \<and>
     tol_ineq (settings impl) = tol_ineq st \<and>
     tol_comp (settings impl) = tol_comp st \<and>
     reg_prim (settings impl) = reg_prim st \<and>
     warm_start (settings impl) = warm_start st \<and>
     pred_corr (settings impl) = pred_corr st \<and>
     ric_alg (settings impl) = ric_alg st"

text \<open>
  \<^verbatim>\<open>applySettings\<close>: the defaults of the chosen mode first, then each setting over them.
\<close>

definition d_ocp_qp_ipm_arg_set_default :: "hpipm_mode \<Rightarrow> d_ocp_qp_ipm_arg \<Rightarrow> d_ocp_qp_ipm_arg" where
  "d_ocp_qp_ipm_arg_set_default m a = a\<lparr>arg_mode := m\<rparr>"

definition applySettings :: "Settings \<Rightarrow> d_ocp_qp_ipm_arg \<Rightarrow> d_ocp_qp_ipm_arg" where
  "applySettings st a =
     (d_ocp_qp_ipm_arg_set_default (hpipmMode st) a)
       \<lparr>arg_iter_max := iter_max st,
        arg_alpha_min := alpha_min st,
        arg_mu0 := mu0 st,
        arg_tol_stat := tol_stat st,
        arg_tol_eq := tol_eq st,
        arg_tol_ineq := tol_ineq st,
        arg_tol_comp := tol_comp st,
        arg_reg_prim := reg_prim st,
        arg_warm_start := warm_start st,
        arg_pred_corr := pred_corr st,
        arg_ric_alg := ric_alg st\<rparr>"

text \<open>
  \<^verbatim>\<open>initializeMemory(OcpSize ocpSize, const Settings& settings)\<close>. The size is passed by
  value; its \<^verbatim>\<open>nx[0]\<close> is overwritten with 0 before anything else (on an empty \<^verbatim>\<open>nx\<close> the
  write is out of range). A \<^verbatim>\<open>reserve\<close> that throws leaves the members as they are at
  that point.
\<close>

definition initializeMemory ::
  "hpipm \<Rightarrow> heap \<Rightarrow> Impl \<Rightarrow> OcpSize \<Rightarrow> Settings \<Rightarrow> error option \<times> heap \<times> Impl" where
  "initializeMemory H h impl ocpSize0 st =
     (if nx ocpSize0 = [] then (Some OutOfRange, h, impl)
      else
        let sz = ocpSize0\<lparr>nx := (nx ocpSize0)[0 := 0]\<rparr> in
        if isSizeEqual impl sz \<and> isSettingsEqual impl st then (None, h, impl)
        else
          let impl = impl\<lparr>settings := st, ocpSize := sz\<rparr>;
              dim_size = d_ocp_qp_dim_memsize H (N (ocpSize impl))
          in case reserve h (dimMem impl) dim_size of
               (Some e, h, m) \<Rightarrow> (Some e, h, impl\<lparr>dimMem := m\<rparr>)
             | (None, h, m) \<Rightarrow>
          let impl = impl\<lparr>dimMem := m\<rparr>;
              impl = impl\<lparr>dim := d_ocp_qp_dim_create (N (ocpSize impl)) (dim impl) (blk_ptr (dimMem impl))\<rparr>;
              impl = impl\<lparr>dim := d_ocp_qp_dim_set_all (nx (ocpSize impl)) (nu (ocpSize impl))
                       (nbx (ocpSize impl)) (nbu (ocpSize impl)) (ng (ocpSize impl))
                       (nsbx (ocpSize impl)) (nsbu (ocpSize impl)) (nsg (ocpSize impl)) (dim impl)\<rparr>;
              qp_size = d_ocp_qp_memsize H (dim impl)
          in case reserve h (qpMem impl) qp_size of
               (Some e, h, m) \<Rightarrow> (Some e, h, impl\<lparr>qpMem := m\<rparr>)
             | (None, h, m) \<Rightarrow>
          let impl = impl\<lparr>qpMem := m\<rparr>;
              impl = impl\<lparr>qp := d_ocp_qp_create (dim impl) (qp impl) (blk_ptr (qpMem impl))\<rparr>;
              qp_sol_size = d_ocp_qp_sol_memsize H (dim impl)
          in case reserve h (qpSolMem impl) qp_sol_size of
               (Some e, h, m) \<Rightarrow> (Some e, h, impl\<lparr>qpSolMem := m\<rparr>)
             | (None, h, m) \<Rightarrow>
          let impl = impl\<lparr>qpSolMem := m\<rparr>;
              impl = impl\<lparr>qpSol := d_ocp_qp_sol_create (dim impl) (qpSol impl) (blk_ptr (qpSolMem impl))\<rparr>;
              ipm_arg_size = d_ocp_qp_ipm_arg_memsize H (dim impl)
          in case reserve h (ipmArgMem impl) ipm_arg_size of
               (Some e, h, m) \<Rightarrow> (Some e, h, impl\<lparr>ipmArgMem := m\<rparr>)
             | (None, h, m) \<Rightarrow>
          let impl = impl\<lparr>ipmArgMem := m\<rparr>;
              impl = impl\<lparr>arg := d_ocp_qp_ipm_arg_create (dim impl) (arg impl) (blk_ptr (ipmArgMem impl))\<rparr>;
              impl = impl\<lparr>arg := applySettings (settings impl) (arg impl)\<rparr>;
              ipm_size = d_ocp_qp_ipm_ws_memsize H (dim impl) (arg impl)
          in case reserve h (ipmMem impl) ipm_size of
               (Some e, h, m) \<Rightarrow> (Some e, h, impl\<lparr>ipmMem := m\<rparr>)
             | (None, h, m) \<Rightarrow>
          let impl = impl\<lparr>ipmMem := m\<rparr>
          in (None, h, impl\<lparr>workspace :=
                d_ocp_qp_ipm_ws_create (dim impl) (arg impl) (workspace impl) (blk_ptr (ipmMem impl))\<rparr>))"

subsection \<open>HpipmInterface::Impl: transcription and solve\<close>

text \<open>
  A \<^verbatim>\<open>for (int k = a; k < b; k++)\<close> loop whose body can fail runs its body over
  \<open>[a..<b]\<close> and stops at the first failure.
\<close>

fun for_loop :: "nat list \<Rightarrow> (nat \<Rightarrow> 's \<Rightarrow> error + 's) \<Rightarrow> 's \<Rightarrow> error + 's" where
  "for_loop [] body s = Inr s"
| "for_loop (k # ks) body s =
     (case body k s of Inl e \<Rightarrow> Inl e | Inr s' \<Rightarrow> for_loop ks body s')"

text \<open>\<^verbatim>\<open>std::vector::resize(n)\<close>: the first \<open>n\<close> entries, filled up with default values.\<close>

definition resize_std :: "nat \<Rightarrow> 'a \<Rightarrow> 'a list \<Rightarrow> 'a list" where
  "resize_std n d xs = take n xs @ replicate (n - length xs) d"

text \<open>
  The loops of \<^verbatim>\<open>solve\<close> that fill the pointer arrays (lines 211 to 215 and 227 to 233).
\<close>

definition dynamics_body ::
  "VectorFunctionLinearApproximation list \<Rightarrow> nat
     \<Rightarrow> matrix_t option list \<times> matrix_t option list \<times> vector_t option list
     \<Rightarrow> matrix_t option list \<times> matrix_t option list \<times> vector_t option list" where
  "dynamics_body dynamics k = (\<lambda>(AA, BB, bb).
     (AA[k := Some (lin_dfdx (dynamics ! k))],
      BB[k := Some (lin_dfdu (dynamics ! k))],
      bb[k := Some (lin_f (dynamics ! k))]))"

definition cost_body ::
  "ScalarFunctionQuadraticApproximation list \<Rightarrow> nat
     \<Rightarrow> matrix_t option list \<times> matrix_t option list \<times> matrix_t option list
         \<times> vector_t option list \<times> vector_t option list
     \<Rightarrow> matrix_t option list \<times> matrix_t option list \<times> matrix_t option list
         \<times> vector_t option list \<times> vector_t option list" where
  "cost_body cost k = (\<lambda>(QQ, RR, SS, qq, rr).
     (QQ[k := Some (quad_dfdxx (cost ! k))],
      RR[k := Some (quad_dfduu (cost ! k))],
      SS[k := Some (quad_dfdux (cost ! k))],
      qq[k := Some (quad_dfdx (cost ! k))],
      rr[k := Some (quad_dfdu (cost ! k))]))"

text \<open>
  The constraint loop (lines 241 to 250). \<^verbatim>\<open>boundData\<close> grows by one vector per stage; the
  pointers \<^verbatim>\<open>llg[k]\<close> and \<^verbatim>\<open>uug[k]\<close> are both set to the data of \<^verbatim>\<open>boundData[k]\<close>. Reading
  \<^verbatim>\<open>constr[k]\<close> beyond the vector is out of range.
\<close>

definition constraints_body ::
  "vector_t \<Rightarrow> VectorFunctionLinearApproximation list \<Rightarrow> nat
     \<Rightarrow> matrix_t option list \<times> matrix_t option list \<times> vector_t list
         \<times> vector_t option list \<times> vector_t option list
     \<Rightarrow> error + (matrix_t option list \<times> matrix_t option list \<times> vector_t list
         \<times> vector_t option list \<times> vector_t option list)" where
  "constraints_body x0 constr k = (\<lambda>(CC, DD, boundData, llg, uug).
     if length constr \<le> k then Inl OutOfRange
     else
       let CC = CC[k := Some (lin_dfdx (constr ! k))];
           DD = DD[k := Some (lin_dfdu (constr ! k))];
           boundData = boundData @ [vneg (lin_f (constr ! k))]
       in if k = 0 \<and> \<not> (can_mul_vec (lin_dfdx (constr ! 0)) x0 \<and>
                          length (boundData ! k) = rows (lin_dfdx (constr ! 0)))
          then Inl EigenAssert
          else
            let boundData =
                  (if k = 0
                   then boundData[k := vsub (boundData ! k) (mat_vec (lin_dfdx (constr ! 0)) x0)]
                   else boundData);
                llg = llg[k := Some (boundData ! k)];
                uug = uug[k := Some (boundData ! k)]
            in Inr (CC, DD, boundData, llg, uug))"

text \<open>
  \<^verbatim>\<open>printStatus\<close> writes to \<^verbatim>\<open>stderr\<close>; of its output the heading and the text that names
  the flag are kept, the iteration count and the table of residuals are left out.
\<close>

definition status_message :: "int \<Rightarrow> string" where
  "status_message hpipmStatus =
     (if hpipmStatus = 0 then ''QP solved!''
      else if hpipmStatus = 1 then ''Solver failed! Maximum number of iterations reached''
      else if hpipmStatus = 2 then ''Solver failed! Minimum step length reached''
      else if hpipmStatus = 3 then ''Solver failed! NaN in computations''
      else if hpipmStatus = 4 then ''Solver failed! Unconsistent equality constraints''
      else ''Solver failed! Unknown return flag'')"

definition printStatus :: "Impl \<Rightarrow> string list" where
  "printStatus impl =
     (let hpipmStatus = d_ocp_qp_ipm_get_status (workspace impl)
      in [''=== HPIPM ==='', status_message hpipmStatus])"

definition getStateSolution_body :: "Impl \<Rightarrow> nat \<Rightarrow> vector_t list \<Rightarrow> error + vector_t list" where
  "getStateSolution_body impl k stateTrajectory =
     (if length (nx (ocpSize impl)) \<le> k then Inl OutOfRange
      else Inr (stateTrajectory[k :=
             vec_of_buffer (nx (ocpSize impl) ! k) (d_ocp_qp_sol_get_x k (qpSol impl))]))"

definition getStateSolution :: "Impl \<Rightarrow> vector_t \<Rightarrow> vector_t list \<Rightarrow> error + vector_t list" where
  "getStateSolution impl x0 stateTrajectory =
     (let stateTrajectory = resize_std (N (ocpSize impl) + 1) [] stateTrajectory;
          stateTrajectory = stateTrajectory[0 := x0]
      in for_loop [1..<N (ocpSize impl) + 1] (getStateSolution_body impl) stateTrajectory)"

definition getInputSolution_body :: "Impl \<Rightarrow> nat \<Rightarrow> vector_t list \<Rightarrow> error + vector_t list" where
  "getInputSolution_body impl k inputTrajectory =
     (if length (nu (ocpSize impl)) \<le> k then Inl OutOfRange
      else Inr (inputTrajectory[k :=
             vec_of_buffer (nu (ocpSize impl) ! k) (d_ocp_qp_sol_get_u k (qpSol impl))]))"

definition getInputSolution :: "Impl \<Rightarrow> vector_t list \<Rightarrow> error + vector_t list" where
  "getInputSolution impl inputTrajectory =
     (let inputTrajectory = resize_std (N (ocpSize impl)) [] inputTrajectory
      in for_loop [0..<N (ocpSize impl)] (getInputSolution_body impl) inputTrajectory)"

text \<open>
  \<^verbatim>\<open>solve\<close> takes the approximations and the two trajectories by reference (the
  constraints by pointer, \<open>None\<close> for \<^verbatim>\<open>nullptr\<close>) and returns the status. The result lists
  the status, every object passed by reference as it is after the call, the interface
  after the call and what verbose mode printed.
\<close>

record solve_result =
  r_status :: int
  r_dynamics :: "VectorFunctionLinearApproximation list"
  r_cost :: "ScalarFunctionQuadraticApproximation list"
  r_constraints :: "VectorFunctionLinearApproximation list option"
  r_stateTrajectory :: "vector_t list"
  r_inputTrajectory :: "vector_t list"
  r_impl :: Impl
  r_stderr :: "string list"

text \<open>
  The first half of \<^verbatim>\<open>solve\<close> (lines 180 to 251): the two assertions, then the pointer
  arrays handed to \<^verbatim>\<open>d_ocp_qp_set_all\<close>. With \<^verbatim>\<open>N = 0\<close> the first assertion lets an empty
  \<^verbatim>\<open>dynamics\<close> through and \<^verbatim>\<open>dynamics[0]\<close> is out of range. \<^verbatim>\<open>b0\<close> and \<^verbatim>\<open>r0\<close> are local
  vectors, copies of \<^verbatim>\<open>dynamics[0].f\<close> and \<^verbatim>\<open>cost[0].dfdu\<close>.
\<close>

definition solve_transcribe ::
  "Impl \<Rightarrow> vector_t \<Rightarrow> VectorFunctionLinearApproximation list
     \<Rightarrow> ScalarFunctionQuadraticApproximation list
     \<Rightarrow> VectorFunctionLinearApproximation list option \<Rightarrow> error + ocp_qp_data" where
  "solve_transcribe impl x0 dynamics cost constraints =
     (let n = N (ocpSize impl) in
      if length dynamics \<noteq> n then Inl AssertionFailed
      else if length cost \<noteq> n + 1 then Inl AssertionFailed
      else
        let AA = replicate n None; BB = replicate n None; bb = replicate n None;
            QQ = replicate (n + 1) None; RR = replicate (n + 1) None;
            SS = replicate (n + 1) None; qq = replicate (n + 1) None;
            rr = replicate (n + 1) None;
            boundData = [];
            CC = replicate (n + 1) None; DD = replicate (n + 1) None;
            llg = replicate (n + 1) None; uug = replicate (n + 1) None
        in
        if n = 0 then Inl OutOfRange
        else if \<not> (can_mul_vec (lin_dfdx (dynamics ! 0)) x0 \<and>
                    length (lin_f (dynamics ! 0)) = rows (lin_dfdx (dynamics ! 0)))
        then Inl EigenAssert
        else
          let b0 = vadd (lin_f (dynamics ! 0)) (mat_vec (lin_dfdx (dynamics ! 0)) x0);
              AA = AA[0 := Some (lin_dfdx (dynamics ! 0))];
              BB = BB[0 := Some (lin_dfdu (dynamics ! 0))];
              bb = bb[0 := Some b0];
              (AA, BB, bb) = fold (dynamics_body dynamics) [1..<n] (AA, BB, bb)
          in
          if \<not> (can_mul_vec (quad_dfdux (cost ! 0)) x0 \<and>
                 length (quad_dfdu (cost ! 0)) = rows (quad_dfdux (cost ! 0)))
          then Inl EigenAssert
          else
            let r0 = vadd (quad_dfdu (cost ! 0)) (mat_vec (quad_dfdux (cost ! 0)) x0);
                QQ = QQ[0 := Some (quad_dfdxx (cost ! 0))];
                RR = RR[0 := Some (quad_dfduu (cost ! 0))];
                SS = SS[0 := Some (quad_dfdux (cost ! 0))];
                qq = qq[0 := Some (quad_dfdx (cost ! 0))];
                rr = rr[0 := Some r0];
                (QQ, RR, SS, qq, rr) = fold (cost_body cost) [1..<n + 1] (QQ, RR, SS, qq, rr)
            in
            case (case constraints of
                    None \<Rightarrow> Inr (CC, DD, boundData, llg, uug)
                  | Some constr \<Rightarrow>
                      for_loop [0..<n + 1] (constraints_body x0 constr)
                        (CC, DD, boundData, llg, uug)) of
              Inl e \<Rightarrow> Inl e
            | Inr (CC, DD, boundData, llg, uug) \<Rightarrow>
                Inr \<lparr>qp_A = AA, qp_B = BB, qp_b = bb, qp_Q = QQ, qp_S = SS, qp_R = RR,
                     qp_q = qq, qp_r = rr, qp_C = CC, qp_D = DD, qp_lg = llg, qp_ug = uug\<rparr>)"

text \<open>
  The second half (lines 266 to 281): the data goes into \<^verbatim>\<open>qp_\<close>, the interior-point
  solver runs, verbose mode prints, the two trajectories are read from the solution and
  the status of the workspace is returned.
\<close>

definition solve ::
  "hpipm \<Rightarrow> Impl \<Rightarrow> vector_t \<Rightarrow> VectorFunctionLinearApproximation list
     \<Rightarrow> ScalarFunctionQuadraticApproximation list
     \<Rightarrow> VectorFunctionLinearApproximation list option
     \<Rightarrow> vector_t list \<Rightarrow> vector_t list \<Rightarrow> bool \<Rightarrow> error + solve_result" where
  "solve H impl x0 dynamics cost constraints stateTrajectory inputTrajectory verbose =
     (case solve_transcribe impl x0 dynamics cost constraints of
        Inl e \<Rightarrow> Inl e
      | Inr dat \<Rightarrow>
          let impl = impl\<lparr>qp := d_ocp_qp_set_all dat (qp impl)\<rparr>;
              (sl, w) = d_ocp_qp_ipm_solve H (qp impl) (qpSol impl) (arg impl) (workspace impl);
              impl = impl\<lparr>qpSol := sl, workspace := w\<rparr>;
              out = (if verbose then printStatus impl else [])
          in case getStateSolution impl x0 stateTrajectory of
               Inl e \<Rightarrow> Inl e
             | Inr stateTrajectory \<Rightarrow>
          (case getInputSolution impl inputTrajectory of
               Inl e \<Rightarrow> Inl e
             | Inr inputTrajectory \<Rightarrow>
          let hpipmStatus = d_ocp_qp_ipm_get_status (workspace impl)
          in Inr \<lparr>r_status = hpipmStatus, r_dynamics = dynamics, r_cost = cost,
                  r_constraints = constraints, r_stateTrajectory = stateTrajectory,
                  r_inputTrajectory = inputTrajectory, r_impl = impl, r_stderr = out\<rparr>))"

text \<open>
  The bound of stage \<open>k\<close> that the constraint loop computes: the negated residual, at
  stage 0 less \<^verbatim>\<open>constr[0].dfdx * x0\<close>.
\<close>

definition stage_bound :: "vector_t \<Rightarrow> VectorFunctionLinearApproximation list \<Rightarrow> nat \<Rightarrow> vector_t" where
  "stage_bound x0 constr k =
     (if k = 0 then vsub (vneg (lin_f (constr ! 0))) (mat_vec (lin_dfdx (constr ! 0)) x0)
      else vneg (lin_f (constr ! k)))"

text \<open>
  What \<^verbatim>\<open>solve\<close> requires of its caller: a horizon of at least one stage, the two
  assertions, the dimensions Eigen checks at stage 0, a constraint vector with an entry
  for every stage, and stored dimension arrays that cover the stages the two
  trajectories are read for. These are the calls on which \<^verbatim>\<open>solve\<close> returns.
\<close>

definition solve_requires ::
  "Impl \<Rightarrow> vector_t \<Rightarrow> VectorFunctionLinearApproximation list
     \<Rightarrow> ScalarFunctionQuadraticApproximation list
     \<Rightarrow> VectorFunctionLinearApproximation list option \<Rightarrow> bool" where
  "solve_requires impl x0 dynamics cost constraints \<longleftrightarrow>
     0 < N (ocpSize impl) \<and>
     length dynamics = N (ocpSize impl) \<and>
     length cost = N (ocpSize impl) + 1 \<and>
     can_mul_vec (lin_dfdx (dynamics ! 0)) x0 \<and>
     length (lin_f (dynamics ! 0)) = rows (lin_dfdx (dynamics ! 0)) \<and>
     can_mul_vec (quad_dfdux (cost ! 0)) x0 \<and>
     length (quad_dfdu (cost ! 0)) = rows (quad_dfdux (cost ! 0)) \<and>
     (case constraints of
        None \<Rightarrow> True
      | Some constr \<Rightarrow>
          N (ocpSize impl) + 1 \<le> length constr \<and>
          can_mul_vec (lin_dfdx (constr ! 0)) x0 \<and>
          length (lin_f (constr ! 0)) = rows (lin_dfdx (constr ! 0))) \<and>
     N (ocpSize impl) < length (nx (ocpSize impl)) \<and>
     N (ocpSize impl) \<le> length (nu (ocpSize impl))"

subsection \<open>HpipmInterface::Impl: the Riccati data of stage 0\<close>

text \<open>
  The getters of HPIPM copy a Riccati quantity of stage \<open>k\<close> into the buffer they are
  given; the interface passes the \<^verbatim>\<open>data()\<close> pointer of an Eigen object that it has
  resized before.
\<close>

definition d_ocp_qp_ipm_get_ric_k ::
  "d_ocp_qp \<Rightarrow> d_ocp_qp_ipm_arg \<Rightarrow> d_ocp_qp_ipm_ws \<Rightarrow> nat \<Rightarrow> nat \<Rightarrow> scalar_t" where
  "d_ocp_qp_ipm_get_ric_k q a w k = ws_ric_k w k"

definition d_ocp_qp_ipm_get_ric_P ::
  "d_ocp_qp \<Rightarrow> d_ocp_qp_ipm_arg \<Rightarrow> d_ocp_qp_ipm_ws \<Rightarrow> nat \<Rightarrow> nat \<Rightarrow> scalar_t" where
  "d_ocp_qp_ipm_get_ric_P q a w k = ws_ric_P w k"

definition d_ocp_qp_ipm_get_ric_Lr ::
  "d_ocp_qp \<Rightarrow> d_ocp_qp_ipm_arg \<Rightarrow> d_ocp_qp_ipm_ws \<Rightarrow> nat \<Rightarrow> nat \<Rightarrow> scalar_t" where
  "d_ocp_qp_ipm_get_ric_Lr q a w k = ws_ric_Lr w k"

definition d_ocp_qp_ipm_get_ric_p ::
  "d_ocp_qp \<Rightarrow> d_ocp_qp_ipm_arg \<Rightarrow> d_ocp_qp_ipm_ws \<Rightarrow> nat \<Rightarrow> nat \<Rightarrow> scalar_t" where
  "d_ocp_qp_ipm_get_ric_p q a w k = ws_ric_p w k"

text \<open>
  The dimension conditions of the four Eigen expressions of \<^verbatim>\<open>getRiccatiZeroStage\<close>
  (lines 328 to 334), operation by operation. \<open>G\<close> is
  \<^verbatim>\<open>Lr0_inv.transpose() * Lr0_inv\<close>.
\<close>

definition zero_stage_dims ::
  "matrix_t \<Rightarrow> matrix_t \<Rightarrow> vector_t \<Rightarrow> matrix_t \<Rightarrow> matrix_t \<Rightarrow> vector_t \<Rightarrow> vector_t
     \<Rightarrow> matrix_t \<Rightarrow> vector_t \<Rightarrow> matrix_t \<Rightarrow> bool" where
  "zero_stage_dims A0 B0 b0 Q0 S0 q0 r0 P1 p1 G \<longleftrightarrow>
     (let BtP = mmul (mtranspose B0) P1;
          AtP = mmul (mtranspose A0) P1;
          X = madd S0 (mmul BtP A0);
          y = vadd (vadd r0 (mat_vec (mtranspose B0) p1)) (mat_vec BtP b0)
      in can_mul (mtranspose B0) P1 \<and> can_mul BtP A0 \<and> same_dims S0 (mmul BtP A0) \<and>
         can_mul (mneg G) X \<and>
         can_mul_vec (mtranspose B0) p1 \<and> length r0 = rows (mtranspose B0) \<and>
         can_mul_vec BtP b0 \<and> length r0 = rows BtP \<and> can_mul_vec (mneg G) y \<and>
         can_mul (mtranspose A0) P1 \<and> can_mul AtP A0 \<and> same_dims Q0 (mmul AtP A0) \<and>
         can_mul (mtranspose X) G \<and> can_mul (mmul (mtranspose X) G) X \<and>
         same_dims Q0 (mmul (mmul (mtranspose X) G) X) \<and>
         can_mul_vec (mtranspose A0) p1 \<and> length q0 = rows (mtranspose A0) \<and>
         can_mul_vec AtP b0 \<and> length q0 = rows AtP \<and>
         can_mul_vec (mmul (mtranspose X) G) y \<and> length q0 = rows (mmul (mtranspose X) G))"

text \<open>
  \<^verbatim>\<open>getRiccatiZeroStage\<close> writes \<^verbatim>\<open>P0, K0, p0, k0\<close>, returned here in this order. The
  argument \<^verbatim>\<open>R0\<close> is not used, and neither is \<^verbatim>\<open>fake_k0\<close>; the \<^verbatim>\<open>resize\<close> calls on the
  outputs are overridden by the assignments, which give each output the dimensions of
  its right-hand side. Reading \<^verbatim>\<open>nu[0]\<close> and \<^verbatim>\<open>nx[1]\<close> beyond the stored arrays is out of
  range.
\<close>

definition getRiccatiZeroStage ::
  "Impl \<Rightarrow> matrix_t \<Rightarrow> matrix_t \<Rightarrow> vector_t \<Rightarrow> matrix_t \<Rightarrow> matrix_t \<Rightarrow> matrix_t
     \<Rightarrow> vector_t \<Rightarrow> vector_t \<Rightarrow> error + (matrix_t \<times> matrix_t \<times> vector_t \<times> vector_t)" where
  "getRiccatiZeroStage impl A0 B0 b0 Q0 R0 S0 q0 r0 =
     (if length (nu (ocpSize impl)) < 1 then Inl OutOfRange
      else if length (nx (ocpSize impl)) < 2 then Inl OutOfRange
      else
        let fake_k0 = vec_of_buffer (nu (ocpSize impl) ! 0)
                        (d_ocp_qp_ipm_get_ric_k (qp impl) (arg impl) (workspace impl) 0);
            P1 = mat_of_buffer (nx (ocpSize impl) ! 1) (nx (ocpSize impl) ! 1)
                   (d_ocp_qp_ipm_get_ric_P (qp impl) (arg impl) (workspace impl) 1);
            Lr0 = mat_of_buffer (nu (ocpSize impl) ! 0) (nu (ocpSize impl) ! 0)
                    (d_ocp_qp_ipm_get_ric_Lr (qp impl) (arg impl) (workspace impl) 0);
            p1 = vec_of_buffer (nx (ocpSize impl) ! 1)
                   (d_ocp_qp_ipm_get_ric_p (qp impl) (arg impl) (workspace impl) 1);
            Lr0_inv = inverse_m Lr0;
            G = mmul (mtranspose Lr0_inv) Lr0_inv
        in
        if \<not> zero_stage_dims A0 B0 b0 Q0 S0 q0 r0 P1 p1 G then Inl EigenAssert
        else
          let K0 = mmul (mneg G) (madd S0 (mmul (mmul (mtranspose B0) P1) A0));
              k0 = mat_vec (mneg G)
                     (vadd (vadd r0 (mat_vec (mtranspose B0) p1))
                        (mat_vec (mmul (mtranspose B0) P1) b0));
              P0 = msub (madd Q0 (mmul (mmul (mtranspose A0) P1) A0))
                     (mmul (mmul (mtranspose (madd S0 (mmul (mmul (mtranspose B0) P1) A0))) G)
                        (madd S0 (mmul (mmul (mtranspose B0) P1) A0)));
              p0 = vsub (vadd (vadd q0 (mat_vec (mtranspose A0) p1))
                           (mat_vec (mmul (mtranspose A0) P1) b0))
                     (mat_vec
                        (mmul (mtranspose (madd S0 (mmul (mmul (mtranspose B0) P1) A0))) G)
                        (vadd (vadd r0 (mat_vec (mtranspose B0) p1))
                           (mat_vec (mmul (mtranspose B0) P1) b0)))
          in Inr (P0, K0, p0, k0))"

text \<open>
  The closed-form backward step of the specification, written for any matrix \<open>Rinv\<close> in
  the place of the inverse of the input cost:
  \<^verbatim>\<open>
  K0 = -Rinv (S0 + B0^T P1 A0)
  k0 = -Rinv (r0 + B0^T p1 + B0^T P1 b0)
  P0 = Q0 + A0^T P1 A0 - (S0 + B0^T P1 A0)^T Rinv (S0 + B0^T P1 A0)
  p0 = q0 + A0^T p1 + A0^T P1 b0 - (S0 + B0^T P1 A0)^T Rinv (r0 + B0^T p1 + B0^T P1 b0)
  \<close>
  The specification takes \<open>Rinv = (Lr0^T Lr0)^-1\<close>, which is \<open>spec_Rinv\<close>.
\<close>

definition spec_K0 :: "matrix_t \<Rightarrow> matrix_t \<Rightarrow> matrix_t \<Rightarrow> matrix_t \<Rightarrow> matrix_t \<Rightarrow> matrix_t" where
  "spec_K0 Rinv A0 B0 S0 P1 = mmul (mneg Rinv) (madd S0 (mmul (mmul (mtranspose B0) P1) A0))"

definition spec_k0 ::
  "matrix_t \<Rightarrow> matrix_t \<Rightarrow> vector_t \<Rightarrow> vector_t \<Rightarrow> matrix_t \<Rightarrow> vector_t \<Rightarrow> vector_t" where
  "spec_k0 Rinv B0 b0 r0 P1 p1 =
     mat_vec (mneg Rinv)
       (vadd (vadd r0 (mat_vec (mtranspose B0) p1)) (mat_vec (mmul (mtranspose B0) P1) b0))"

definition spec_P0 ::
  "matrix_t \<Rightarrow> matrix_t \<Rightarrow> matrix_t \<Rightarrow> matrix_t \<Rightarrow> matrix_t \<Rightarrow> matrix_t \<Rightarrow> matrix_t" where
  "spec_P0 Rinv A0 B0 Q0 S0 P1 =
     msub (madd Q0 (mmul (mmul (mtranspose A0) P1) A0))
       (mmul (mmul (mtranspose (madd S0 (mmul (mmul (mtranspose B0) P1) A0))) Rinv)
          (madd S0 (mmul (mmul (mtranspose B0) P1) A0)))"

definition spec_p0 ::
  "matrix_t \<Rightarrow> matrix_t \<Rightarrow> matrix_t \<Rightarrow> vector_t \<Rightarrow> matrix_t \<Rightarrow> vector_t \<Rightarrow> vector_t
     \<Rightarrow> matrix_t \<Rightarrow> vector_t \<Rightarrow> vector_t" where
  "spec_p0 Rinv A0 B0 b0 S0 q0 r0 P1 p1 =
     vsub (vadd (vadd q0 (mat_vec (mtranspose A0) p1)) (mat_vec (mmul (mtranspose A0) P1) b0))
       (mat_vec (mmul (mtranspose (madd S0 (mmul (mmul (mtranspose B0) P1) A0))) Rinv)
          (vadd (vadd r0 (mat_vec (mtranspose B0) p1)) (mat_vec (mmul (mtranspose B0) P1) b0)))"

definition spec_Rinv :: "matrix_t \<Rightarrow> matrix_t" where
  "spec_Rinv Lr0 = inverse_m (mmul (mtranspose Lr0) Lr0)"

text \<open>
  What the code takes in that place: \<^verbatim>\<open>Lr0_inv.transpose() * Lr0_inv\<close>, which is
  \<open>Lr0^-T Lr0^-1\<close>.
\<close>

definition zero_stage_Rinv :: "matrix_t \<Rightarrow> matrix_t" where
  "zero_stage_Rinv Lr0 = mmul (mtranspose (inverse_m Lr0)) (inverse_m Lr0)"

text \<open>The Riccati data that the getters read from an interface.\<close>

definition ric_P1 :: "Impl \<Rightarrow> matrix_t" where
  "ric_P1 impl = mat_of_buffer (nx (ocpSize impl) ! 1) (nx (ocpSize impl) ! 1)
                   (ws_ric_P (workspace impl) 1)"

definition ric_p1 :: "Impl \<Rightarrow> vector_t" where
  "ric_p1 impl = vec_of_buffer (nx (ocpSize impl) ! 1) (ws_ric_p (workspace impl) 1)"

definition ric_Lr0 :: "Impl \<Rightarrow> matrix_t" where
  "ric_Lr0 impl = mat_of_buffer (nu (ocpSize impl) ! 0) (nu (ocpSize impl) ! 0)
                    (ws_ric_Lr (workspace impl) 0)"

subsection \<open>A small problem to run the operations on\<close>

text \<open>
  Two stages with two states, one input and one constraint each. The stand-in for HPIPM
  asks for blocks of fixed sizes; its solver gives up at once, reporting status 1
  (maximum number of iterations reached) beside a fixed trajectory and fixed Riccati
  data, so that a return with a status other than 0 is played through.
\<close>

definition ex_settings :: Settings where
  "ex_settings = \<lparr>hpipmMode = SPEED, iter_max = 30, alpha_min = 1 / 100, mu0 = 1,
     tol_stat = 1 / 10, tol_eq = 1 / 10, tol_ineq = 1 / 10, tol_comp = 1 / 10,
     reg_prim = 0, warm_start = 0, pred_corr = 1, ric_alg = 0\<rparr>"

definition ex_size :: OcpSize where
  "ex_size = \<lparr>N = 2, nu = [1, 1, 0], nx = [2, 2, 2], nbu = [0, 0, 0], nbx = [0, 0, 0],
     ng = [1, 1, 1], nsbu = [0, 0, 0], nsbx = [0, 0, 0], nsg = [0, 0, 0]\<rparr>"

definition ex_hpipm :: hpipm where
  "ex_hpipm = \<lparr>
     d_ocp_qp_dim_memsize = (\<lambda>n. 64 * (n + 1)),
     d_ocp_qp_memsize = (\<lambda>d. 128 * (dim_N d + 1)),
     d_ocp_qp_sol_memsize = (\<lambda>d. 32 * (dim_N d + 1)),
     d_ocp_qp_ipm_arg_memsize = (\<lambda>d. 96),
     d_ocp_qp_ipm_ws_memsize = (\<lambda>d a. 256 * (dim_N d + 1)),
     d_ocp_qp_ipm_solve = (\<lambda>q sl a w.
        (sl\<lparr>sol_x := (\<lambda>k i. real (10 * k + i)), sol_u := (\<lambda>k i. - real (k + 1))\<rparr>,
         w\<lparr>ws_status := 1,
           ws_ric_P := (\<lambda>k i. [2, 1, 1, 3] ! i),
           ws_ric_p := (\<lambda>k i. [1, - 1] ! i),
           ws_ric_Lr := (\<lambda>k i. [2] ! i)\<rparr>))\<rparr>"


definition ex_heap :: heap where
  "ex_heap = \<lparr>next_addr = 0, live = [], capacity = 4096\<rparr>"

definition ex_dim0 :: d_ocp_qp_dim where
  "ex_dim0 = \<lparr>dim_mem = None, dim_N = 0, dim_arrays = []\<rparr>"

definition ex_impl0 :: Impl where
  "ex_impl0 = \<lparr>
     settings = ex_settings\<lparr>iter_max := 0\<rparr>,
     ocpSize = \<lparr>N = 0, nu = [0], nx = [0], nbu = [0], nbx = [0], ng = [0],
                nsbu = [0], nsbx = [0], nsg = [0]\<rparr>,
     dimMem = MemoryBlock_default,
     dim = ex_dim0,
     qpMem = MemoryBlock_default,
     qp = \<lparr>qp_mem = None, qp_dim = ex_dim0, qp_in = None\<rparr>,
     qpSolMem = MemoryBlock_default,
     qpSol = \<lparr>sol_mem = None, sol_dim = ex_dim0, sol_x = (\<lambda>k i. 0), sol_u = (\<lambda>k i. 0)\<rparr>,
     ipmArgMem = MemoryBlock_default,
     arg = \<lparr>arg_mem = None, arg_mode = SPEED, arg_iter_max = 0, arg_alpha_min = 0, arg_mu0 = 0,
             arg_tol_stat = 0, arg_tol_eq = 0, arg_tol_ineq = 0, arg_tol_comp = 0,
             arg_reg_prim = 0, arg_warm_start = 0, arg_pred_corr = 0, arg_ric_alg = 0\<rparr>,
     ipmMem = MemoryBlock_default,
     workspace = \<lparr>ws_mem = None, ws_status = 0, ws_ric_P = (\<lambda>k i. 0), ws_ric_p = (\<lambda>k i. 0),
                   ws_ric_Lr = (\<lambda>k i. 0), ws_ric_Ls = (\<lambda>k i. 0), ws_ric_k = (\<lambda>k i. 0)\<rparr>\<rparr>"

text \<open>The interface after its first preparation for \<open>ex_size\<close>, and the heap then.\<close>

definition ex_heap1 :: heap where
  "ex_heap1 = fst (snd (initializeMemory ex_hpipm ex_heap ex_impl0 ex_size ex_settings))"

definition ex_impl :: Impl where
  "ex_impl = snd (snd (initializeMemory ex_hpipm ex_heap ex_impl0 ex_size ex_settings))"

definition ex_x0 :: vector_t where
  "ex_x0 = [1, 2]"

definition ex_dynamics :: "VectorFunctionLinearApproximation list" where
  "ex_dynamics =
     [\<lparr>lin_f = [1, 0], lin_dfdx = Matrix 2 2 [[1, 1], [0, 1]], lin_dfdu = Matrix 2 1 [[0], [1]]\<rparr>,
      \<lparr>lin_f = [0, 5], lin_dfdx = Matrix 2 2 [[1, 2], [0, 1]], lin_dfdu = Matrix 2 1 [[0], [2]]\<rparr>]"

definition ex_cost :: "ScalarFunctionQuadraticApproximation list" where
  "ex_cost =
     [\<lparr>quad_f = 0, quad_dfdx = [0, 0], quad_dfdu = [1], quad_dfdxx = Matrix 2 2 [[1, 0], [0, 1]],
       quad_dfdux = Matrix 1 2 [[1, 2]], quad_dfduu = Matrix 1 1 [[1]]\<rparr>,
      \<lparr>quad_f = 0, quad_dfdx = [1, 1], quad_dfdu = [4], quad_dfdxx = Matrix 2 2 [[2, 0], [0, 2]],
       quad_dfdux = Matrix 1 2 [[0, 1]], quad_dfduu = Matrix 1 1 [[3]]\<rparr>,
      \<lparr>quad_f = 0, quad_dfdx = [2, 2], quad_dfdu = [], quad_dfdxx = Matrix 2 2 [[5, 0], [0, 5]],
       quad_dfdux = Matrix 0 2 [], quad_dfduu = Matrix 0 0 []\<rparr>]"

definition ex_constraints :: "VectorFunctionLinearApproximation list" where
  "ex_constraints =
     [\<lparr>lin_f = [3], lin_dfdx = Matrix 1 2 [[1, 0]], lin_dfdu = Matrix 1 1 [[1]]\<rparr>,
      \<lparr>lin_f = [4], lin_dfdx = Matrix 1 2 [[0, 1]], lin_dfdu = Matrix 1 1 [[1]]\<rparr>,
      \<lparr>lin_f = [6], lin_dfdx = Matrix 1 2 [[1, 1]], lin_dfdu = Matrix 1 0 [[]]\<rparr>]"

text \<open>
  An interface after a solve over one stage with two inputs and one state, in which the
  factor of the input cost at stage 0 is the lower triangular \<open>Lr0 = [[1, 0], [1, 1]]\<close>
  (column by column in the buffer), with \<open>P1 = [[1]]\<close> and \<open>p1 = [1]\<close>; and stage-0 blocks
  with \<open>R0 = Lr0 Lr0^T\<close> and no coupling of the inputs into the state.
\<close>

definition ex2_impl :: Impl where
  "ex2_impl = ex_impl0\<lparr>
     ocpSize := \<lparr>N = 1, nu = [2, 0], nx = [0, 1], nbu = [0, 0], nbx = [0, 0], ng = [0, 0],
                 nsbu = [0, 0], nsbx = [0, 0], nsg = [0, 0]\<rparr>,
     workspace := (workspace ex_impl0)\<lparr>
        ws_ric_P := (\<lambda>k i. [1] ! i),
        ws_ric_p := (\<lambda>k i. [1] ! i),
        ws_ric_Lr := (\<lambda>k i. [1, 1, 0, 1] ! i)\<rparr>\<rparr>"

definition ex2_A0 :: matrix_t where "ex2_A0 = Matrix 1 1 [[1]]"
definition ex2_B0 :: matrix_t where "ex2_B0 = Matrix 1 2 [[0, 0]]"
definition ex2_b0 :: vector_t where "ex2_b0 = [0]"
definition ex2_Q0 :: matrix_t where "ex2_Q0 = Matrix 1 1 [[3]]"
definition ex2_R0 :: matrix_t where "ex2_R0 = Matrix 2 2 [[1, 1], [1, 2]]"
definition ex2_S0 :: matrix_t where "ex2_S0 = Matrix 2 1 [[1], [0]]"
definition ex2_q0 :: vector_t where "ex2_q0 = [0]"
definition ex2_r0 :: vector_t where "ex2_r0 = [0, 1]"

section \<open>Properties\<close>

subsection \<open>MemoryBlock\<close>

lemma reserve_size_mono: "blk_size b \<le> blk_size (snd (snd (reserve h b s)))"
  by (simp add: reserve_def Let_def split: prod.splits)

lemma reserve_all_size_mono: "blk_size b \<le> blk_size (snd (reserve_all h b ss))"
proof (induction ss arbitrary: h b)
  case Nil
  show ?case by simp
next
  case (Cons s ss)
  obtain e h' b' where r: "reserve h b s = (e, h', b')"
    by (cases "reserve h b s") auto
  have "blk_size b \<le> blk_size b'"
    using reserve_size_mono [of b h s] r by simp
  also have "\<dots> \<le> blk_size (snd (reserve_all h' b' ss))"
    by (rule Cons.IH)
  finally show ?case
    using r by simp
qed

lemma reserve_small: "s \<le> blk_size b \<Longrightarrow> reserve h b s = (None, h, b)"
  by (simp add: reserve_def)

lemma reserve_grow:
  assumes "blk_size b < s" and "malloc (free h (blk_ptr b)) s = (Some p, h')"
  shows "reserve h b s = (None, h', \<lparr>blk_ptr = Some p, blk_size = s\<rparr>)"
  using assms by (simp add: reserve_def Let_def)

lemma reserve_throw:
  assumes "blk_size b < s" and "malloc (free h (blk_ptr b)) s = (None, h')"
  shows "reserve h b s = (Some BadAlloc, h', \<lparr>blk_ptr = None, blk_size = blk_size b\<rparr>)"
  using assms by (simp add: reserve_def Let_def)

text \<open>
  Claim C5. \<^verbatim>\<open>MemoryBlock::reserve\<close> is grow-only. A request \<open>s\<close> that does not exceed the
  current size leaves the block and the heap exactly as they were: nothing is freed and
  nothing is allocated. A larger request that the allocator can satisfy returns normally
  with the stored size equal to \<open>s\<close>; one that it cannot satisfy throws \<^verbatim>\<open>std::bad_alloc\<close>
  and keeps the stored size. Over any sequence of \<^verbatim>\<open>reserve\<close> calls, whether or not one
  of them throws, the stored size never decreases.
\<close>

theorem reserve_grow_only:
  "(s \<le> blk_size b \<longrightarrow> reserve h b s = (None, h, b)) \<and>
   (blk_size b < s \<and> fst (malloc (free h (blk_ptr b)) s) \<noteq> None \<longrightarrow>
      fst (reserve h b s) = None \<and> blk_size (snd (snd (reserve h b s))) = s) \<and>
   (blk_size b < s \<and> fst (malloc (free h (blk_ptr b)) s) = None \<longrightarrow>
      fst (reserve h b s) = Some BadAlloc \<and> blk_size (snd (snd (reserve h b s))) = blk_size b) \<and>
   blk_size b \<le> blk_size (snd (reserve_all h b ss))"
proof (intro conjI impI)
  assume "s \<le> blk_size b"
  then show "reserve h b s = (None, h, b)" by (rule reserve_small)
next
  assume a: "blk_size b < s \<and> fst (malloc (free h (blk_ptr b)) s) \<noteq> None"
  then obtain p h' where m: "malloc (free h (blk_ptr b)) s = (Some p, h')"
    by (cases "malloc (free h (blk_ptr b)) s") auto
  from a m show "fst (reserve h b s) = None" by (simp add: reserve_grow)
  from a m show "blk_size (snd (snd (reserve h b s))) = s" by (simp add: reserve_grow)
next
  assume a: "blk_size b < s \<and> fst (malloc (free h (blk_ptr b)) s) = None"
  then obtain h' where m: "malloc (free h (blk_ptr b)) s = (None, h')"
    by (cases "malloc (free h (blk_ptr b)) s") auto
  from a m show "fst (reserve h b s) = Some BadAlloc" by (simp add: reserve_throw)
  from a m show "blk_size (snd (snd (reserve h b s))) = blk_size b" by (simp add: reserve_throw)
next
  show "blk_size b \<le> blk_size (snd (reserve_all h b ss))" by (rule reserve_all_size_mono)
qed

theorem reserve_grow_only_witness:
  "reserve \<lparr>next_addr = 8, live = [(7, 16)], capacity = 100\<rparr> \<lparr>blk_ptr = Some 7, blk_size = 16\<rparr> 8
     = (None, \<lparr>next_addr = 8, live = [(7, 16)], capacity = 100\<rparr>, \<lparr>blk_ptr = Some 7, blk_size = 16\<rparr>) \<and>
   fst (reserve \<lparr>next_addr = 0, live = [], capacity = 100\<rparr> MemoryBlock_default 32) = None \<and>
   blk_size (snd (snd (reserve \<lparr>next_addr = 0, live = [], capacity = 100\<rparr> MemoryBlock_default 32))) = 32 \<and>
   fst (reserve \<lparr>next_addr = 0, live = [], capacity = 100\<rparr> MemoryBlock_default 200) = Some BadAlloc \<and>
   blk_size (snd (snd (reserve \<lparr>next_addr = 0, live = [], capacity = 100\<rparr> MemoryBlock_default 200))) = 0 \<and>
   blk_size MemoryBlock_default
     \<le> blk_size (snd (reserve_all \<lparr>next_addr = 0, live = [], capacity = 100\<rparr> MemoryBlock_default [32, 8, 200]))"
proof -
  have a: "(8::nat) \<le> blk_size \<lparr>blk_ptr = Some 7, blk_size = 16\<rparr>" by simp
  have b: "blk_size MemoryBlock_default < (32::nat) \<and>
      fst (malloc (free \<lparr>next_addr = 0, live = [], capacity = 100\<rparr> (blk_ptr MemoryBlock_default)) 32) \<noteq> None"
    by (simp add: MemoryBlock_default_def malloc_def heap_used_def)
  have c: "blk_size MemoryBlock_default < (200::nat) \<and>
      fst (malloc (free \<lparr>next_addr = 0, live = [], capacity = 100\<rparr> (blk_ptr MemoryBlock_default)) 200) = None"
    by (simp add: MemoryBlock_default_def malloc_def heap_used_def)
  have z: "blk_size MemoryBlock_default = 0"
    by (simp add: MemoryBlock_default_def)
  show ?thesis
    using a b c
      reserve_grow_only [of 8 "\<lparr>blk_ptr = Some 7, blk_size = 16\<rparr>" "\<lparr>next_addr = 8, live = [(7, 16)], capacity = 100\<rparr>" "[]"]
      reserve_grow_only [of 32 MemoryBlock_default "\<lparr>next_addr = 0, live = [], capacity = 100\<rparr>" "[32, 8, 200]"]
      reserve_grow_only [of 200 MemoryBlock_default "\<lparr>next_addr = 0, live = [], capacity = 100\<rparr>" "[]"]
    unfolding z by blast
qed

subsection \<open>Preparing the workspace\<close>

lemma initializeMemory_same:
  assumes "nx sz \<noteq> []"
    and "isSizeEqual impl (sz\<lparr>nx := (nx sz)[0 := 0]\<rparr>)" and "isSettingsEqual impl st"
  shows "initializeMemory H h impl sz st = (None, h, impl)"
  using assms by (simp add: initializeMemory_def)

lemma initializeMemory_stores:
  assumes "nx sz \<noteq> []" and "initializeMemory H h impl sz st = (e, h1, impl1)"
  shows "isSizeEqual impl1 (sz\<lparr>nx := (nx sz)[0 := 0]\<rparr>) \<and> isSettingsEqual impl1 st"
proof (cases "isSizeEqual impl (sz\<lparr>nx := (nx sz)[0 := 0]\<rparr>) \<and> isSettingsEqual impl st")
  case True
  with assms show ?thesis by (simp add: initializeMemory_def)
next
  case False
  with assms have "ocpSize impl1 = sz\<lparr>nx := (nx sz)[0 := 0]\<rparr> \<and> settings impl1 = st"
    by (auto simp: initializeMemory_def Let_def split: prod.splits option.splits)
  then show ?thesis by (simp add: isSizeEqual_def isSettingsEqual_def)
qed

lemma initializeMemory_nx0:
  "nx sz \<noteq> [] \<Longrightarrow>
   initializeMemory H h impl (sz\<lparr>nx := (nx sz)[0 := v]\<rparr>) st = initializeMemory H h impl sz st"
  by (simp add: initializeMemory_def)

lemma ex_size_nx: "nx ex_size \<noteq> []"
  by (simp add: ex_size_def)

lemma ex_impl_prepared:
  "isSizeEqual ex_impl (ex_size\<lparr>nx := (nx ex_size)[0 := 0]\<rparr>) \<and> isSettingsEqual ex_impl ex_settings"
proof -
  have "initializeMemory ex_hpipm ex_heap ex_impl0 ex_size ex_settings
          = (fst (initializeMemory ex_hpipm ex_heap ex_impl0 ex_size ex_settings), ex_heap1, ex_impl)"
    by (simp add: ex_heap1_def ex_impl_def)
  then show ?thesis
    by (rule initializeMemory_stores [OF ex_size_nx])
qed

text \<open>
  Claim C4. \<^verbatim>\<open>initializeMemory\<close> is idempotent on equal inputs. When the requested size
  (with its \<^verbatim>\<open>nx[0]\<close> set to 0, as the function compares it) is \<^verbatim>\<open>isSizeEqual\<close> to the stored
  one and the settings are \<^verbatim>\<open>isSettingsEqual\<close> to the stored ones, the call returns at once:
  no exception, the heap and every member of the interface unchanged. A second call with
  the arguments of the call before it is such a call: it returns the heap and the
  interface that the first call left, so it allocates nothing.
\<close>

theorem initializeMemory_idempotent:
  assumes "nx sz \<noteq> []"
  shows "(isSizeEqual impl (sz\<lparr>nx := (nx sz)[0 := 0]\<rparr>) \<and> isSettingsEqual impl st \<longrightarrow>
            initializeMemory H h impl sz st = (None, h, impl)) \<and>
         (case initializeMemory H h impl sz st of
            (e, h1, impl1) \<Rightarrow> initializeMemory H h1 impl1 sz st = (None, h1, impl1))"
proof
  show "isSizeEqual impl (sz\<lparr>nx := (nx sz)[0 := 0]\<rparr>) \<and> isSettingsEqual impl st \<longrightarrow>
          initializeMemory H h impl sz st = (None, h, impl)"
    using assms by (simp add: initializeMemory_same)
next
  obtain e h1 impl1 where r: "initializeMemory H h impl sz st = (e, h1, impl1)"
    by (cases "initializeMemory H h impl sz st") auto
  from initializeMemory_stores [OF assms r]
  have "initializeMemory H h1 impl1 sz st = (None, h1, impl1)"
    using assms by (simp add: initializeMemory_same)
  with r show "case initializeMemory H h impl sz st of
      (e, h1, impl1) \<Rightarrow> initializeMemory H h1 impl1 sz st = (None, h1, impl1)"
    by simp
qed

theorem initializeMemory_idempotent_witness:
  "isSizeEqual ex_impl (ex_size\<lparr>nx := (nx ex_size)[0 := 0]\<rparr>) \<and>
   isSettingsEqual ex_impl ex_settings \<and>
   initializeMemory ex_hpipm ex_heap1 ex_impl ex_size ex_settings = (None, ex_heap1, ex_impl)"
  using ex_impl_prepared
    initializeMemory_idempotent [OF ex_size_nx, of ex_impl ex_settings ex_hpipm ex_heap1]
  by blast

text \<open>
  Claim C10. \<^verbatim>\<open>initializeMemory\<close> sets \<^verbatim>\<open>nx[0]\<close> of the requested size to 0 before it
  compares and stores the size. Two requests that differ only in \<^verbatim>\<open>nx[0]\<close> have the same
  outcome (flag, heap and interface). The call leaves heap and interface as they were
  exactly when the stored size is \<^verbatim>\<open>isSizeEqual\<close> to the request with \<^verbatim>\<open>nx[0]\<close> set to 0 and
  the stored settings are \<^verbatim>\<open>isSettingsEqual\<close> to the requested ones. After every call the
  stored size is the request with \<^verbatim>\<open>nx[0]\<close> set to 0, so the stored \<^verbatim>\<open>nx[0]\<close> is 0.
\<close>

theorem initializeMemory_ignores_nx0:
  assumes "nx sz \<noteq> []"
  shows "initializeMemory H h impl (sz\<lparr>nx := (nx sz)[0 := v]\<rparr>) st = initializeMemory H h impl sz st \<and>
         nx (ocpSize (snd (snd (initializeMemory H h impl sz st)))) ! 0 = 0 \<and>
         ocpSize (snd (snd (initializeMemory H h impl sz st))) = sz\<lparr>nx := (nx sz)[0 := 0]\<rparr> \<and>
         (initializeMemory H h impl sz st = (None, h, impl) \<longleftrightarrow>
            isSizeEqual impl (sz\<lparr>nx := (nx sz)[0 := 0]\<rparr>) \<and> isSettingsEqual impl st)"
proof (intro conjI)
  show "initializeMemory H h impl (sz\<lparr>nx := (nx sz)[0 := v]\<rparr>) st = initializeMemory H h impl sz st"
    using assms by (rule initializeMemory_nx0)
next
  obtain e h1 impl1 where r: "initializeMemory H h impl sz st = (e, h1, impl1)"
    by (cases "initializeMemory H h impl sz st") auto
  from initializeMemory_stores [OF assms r]
  have "nx (ocpSize impl1) = (nx sz)[0 := 0]"
    by (simp add: isSizeEqual_def)
  with assms r show "nx (ocpSize (snd (snd (initializeMemory H h impl sz st)))) ! 0 = 0"
    by simp
next
  obtain e h1 impl1 where r: "initializeMemory H h impl sz st = (e, h1, impl1)"
    by (cases "initializeMemory H h impl sz st") auto
  from initializeMemory_stores [OF assms r]
  have "isSizeEqual impl1 (sz\<lparr>nx := (nx sz)[0 := 0]\<rparr>)"
    by simp
  then have "ocpSize impl1 = sz\<lparr>nx := (nx sz)[0 := 0]\<rparr>"
    by (intro OcpSize.equality) (simp_all add: isSizeEqual_def)
  with r show "ocpSize (snd (snd (initializeMemory H h impl sz st))) = sz\<lparr>nx := (nx sz)[0 := 0]\<rparr>"
    by simp
next
  show "initializeMemory H h impl sz st = (None, h, impl) \<longleftrightarrow>
          isSizeEqual impl (sz\<lparr>nx := (nx sz)[0 := 0]\<rparr>) \<and> isSettingsEqual impl st"
  proof
    assume "initializeMemory H h impl sz st = (None, h, impl)"
    then show "isSizeEqual impl (sz\<lparr>nx := (nx sz)[0 := 0]\<rparr>) \<and> isSettingsEqual impl st"
      by (rule initializeMemory_stores [OF assms])
  next
    assume "isSizeEqual impl (sz\<lparr>nx := (nx sz)[0 := 0]\<rparr>) \<and> isSettingsEqual impl st"
    with assms show "initializeMemory H h impl sz st = (None, h, impl)"
      by (simp add: initializeMemory_same)
  qed
qed

theorem initializeMemory_ignores_nx0_witness:
  "initializeMemory ex_hpipm ex_heap ex_impl0 (ex_size\<lparr>nx := (nx ex_size)[0 := 7]\<rparr>) ex_settings
     = initializeMemory ex_hpipm ex_heap ex_impl0 ex_size ex_settings \<and>
   nx (ocpSize ex_impl) ! 0 = 0 \<and>
   ocpSize ex_impl = ex_size\<lparr>nx := [0, 2, 2]\<rparr> \<and>
   nx ex_size = [2, 2, 2]"
  using initializeMemory_ignores_nx0 [OF ex_size_nx, of ex_hpipm ex_heap ex_impl0 7 ex_settings]
  by (simp add: ex_impl_def ex_size_def)

subsection \<open>Transcription and solve\<close>

lemma fold_upd_length: "length (fold (\<lambda>k a. a[k := g k]) ks xs) = length xs"
  by (induction ks arbitrary: xs) simp_all

lemma fold_upd_nth:
  "i < length xs \<Longrightarrow> fold (\<lambda>k a. a[k := g k]) ks xs ! i = (if i \<in> set ks then g i else xs ! i)"
  by (induction ks arbitrary: xs) (auto simp: nth_list_update)

lemma dynamics_fold:
  "fold (dynamics_body dyn) ks (AA, BB, bb) =
     (fold (\<lambda>k a. a[k := Some (lin_dfdx (dyn ! k))]) ks AA,
      fold (\<lambda>k a. a[k := Some (lin_dfdu (dyn ! k))]) ks BB,
      fold (\<lambda>k a. a[k := Some (lin_f (dyn ! k))]) ks bb)"
  by (induction ks arbitrary: AA BB bb) (simp_all add: dynamics_body_def)

lemma cost_fold:
  "fold (cost_body cst) ks (QQ, RR, SS, qq, rr) =
     (fold (\<lambda>k a. a[k := Some (quad_dfdxx (cst ! k))]) ks QQ,
      fold (\<lambda>k a. a[k := Some (quad_dfduu (cst ! k))]) ks RR,
      fold (\<lambda>k a. a[k := Some (quad_dfdux (cst ! k))]) ks SS,
      fold (\<lambda>k a. a[k := Some (quad_dfdx (cst ! k))]) ks qq,
      fold (\<lambda>k a. a[k := Some (quad_dfdu (cst ! k))]) ks rr)"
  by (induction ks arbitrary: QQ RR SS qq rr) (simp_all add: cost_body_def)

lemma constraints_body_Inr:
  assumes "constraints_body x0 constr k (CC, DD, bd, llg, uug) = Inr (CC', DD', bd', llg', uug')"
    and "length bd = k"
  shows "k < length constr \<and> length bd' = Suc k \<and>
         CC' = CC[k := Some (lin_dfdx (constr ! k))] \<and>
         DD' = DD[k := Some (lin_dfdu (constr ! k))] \<and>
         llg' = llg[k := Some (stage_bound x0 constr k)] \<and>
         uug' = uug[k := Some (stage_bound x0 constr k)]"
  using assms
  by (auto simp: constraints_body_def Let_def stage_bound_def nth_append split: if_splits)

lemma constraints_loop_inv:
  assumes "for_loop [j..<m] (constraints_body x0 constr) (CC, DD, bd, llg, uug)
             = Inr (CC', DD', bd', llg', uug')"
    and "length bd = j"
  shows "llg' = fold (\<lambda>k a. a[k := Some (stage_bound x0 constr k)]) [j..<m] llg \<and>
         uug' = fold (\<lambda>k a. a[k := Some (stage_bound x0 constr k)]) [j..<m] uug \<and>
         CC' = fold (\<lambda>k a. a[k := Some (lin_dfdx (constr ! k))]) [j..<m] CC \<and>
         DD' = fold (\<lambda>k a. a[k := Some (lin_dfdu (constr ! k))]) [j..<m] DD \<and>
         (j < m \<longrightarrow> m \<le> length constr)"
  using assms
proof (induction "m - j" arbitrary: j CC DD bd llg uug)
  case 0
  then show ?case by simp
next
  case (Suc d)
  then have jm: "j < m" by simp
  then have up: "[j..<m] = j # [Suc j..<m]" by (simp add: upt_conv_Cons)
  from Suc.prems(1) up obtain s1 where
    b: "constraints_body x0 constr j (CC, DD, bd, llg, uug) = Inr s1" and
    l: "for_loop [Suc j..<m] (constraints_body x0 constr) s1 = Inr (CC', DD', bd', llg', uug')"
    by (auto split: sum.splits)
  obtain CC1 DD1 bd1 llg1 uug1 where s1: "s1 = (CC1, DD1, bd1, llg1, uug1)"
    by (cases s1) auto
  note B = constraints_body_Inr [OF b [unfolded s1] Suc.prems(2)]
  have d: "d = m - Suc j" using Suc.hyps(2) by simp
  from B have len: "length bd1 = Suc j" by simp
  note IH = Suc.hyps(1) [OF d l [unfolded s1] len]
  from B IH jm show ?case
    by (auto simp: up)
qed


lemma solve_transcribe_pre:
  assumes "solve_transcribe impl x0 dynamics cost constraints = Inr dat"
  shows "0 < N (ocpSize impl) \<and> length dynamics = N (ocpSize impl) \<and>
         length cost = N (ocpSize impl) + 1"
  using assms by (auto simp: solve_transcribe_def Let_def split: if_splits)

lemma solve_transcribe_dynamics:
  assumes "solve_transcribe impl x0 dynamics cost constraints = Inr dat"
  shows "qp_A dat = fold (\<lambda>k a. a[k := Some (lin_dfdx (dynamics ! k))]) [1..<N (ocpSize impl)]
                      ((replicate (N (ocpSize impl)) None)[0 := Some (lin_dfdx (dynamics ! 0))])"
    and "qp_B dat = fold (\<lambda>k a. a[k := Some (lin_dfdu (dynamics ! k))]) [1..<N (ocpSize impl)]
                      ((replicate (N (ocpSize impl)) None)[0 := Some (lin_dfdu (dynamics ! 0))])"
    and "qp_b dat = fold (\<lambda>k a. a[k := Some (lin_f (dynamics ! k))]) [1..<N (ocpSize impl)]
                      ((replicate (N (ocpSize impl)) None)
                         [0 := Some (vadd (lin_f (dynamics ! 0)) (mat_vec (lin_dfdx (dynamics ! 0)) x0))])"
  using assms
  by (auto simp: solve_transcribe_def Let_def dynamics_fold cost_fold
           simp del: upt_Suc replicate.simps
           split: if_splits sum.splits prod.splits)

lemma solve_transcribe_cost:
  assumes "solve_transcribe impl x0 dynamics cost constraints = Inr dat"
  shows "qp_Q dat = fold (\<lambda>k a. a[k := Some (quad_dfdxx (cost ! k))]) [1..<N (ocpSize impl) + 1]
                      ((replicate (N (ocpSize impl) + 1) None)[0 := Some (quad_dfdxx (cost ! 0))])"
    and "qp_R dat = fold (\<lambda>k a. a[k := Some (quad_dfduu (cost ! k))]) [1..<N (ocpSize impl) + 1]
                      ((replicate (N (ocpSize impl) + 1) None)[0 := Some (quad_dfduu (cost ! 0))])"
    and "qp_S dat = fold (\<lambda>k a. a[k := Some (quad_dfdux (cost ! k))]) [1..<N (ocpSize impl) + 1]
                      ((replicate (N (ocpSize impl) + 1) None)[0 := Some (quad_dfdux (cost ! 0))])"
    and "qp_q dat = fold (\<lambda>k a. a[k := Some (quad_dfdx (cost ! k))]) [1..<N (ocpSize impl) + 1]
                      ((replicate (N (ocpSize impl) + 1) None)[0 := Some (quad_dfdx (cost ! 0))])"
    and "qp_r dat = fold (\<lambda>k a. a[k := Some (quad_dfdu (cost ! k))]) [1..<N (ocpSize impl) + 1]
                      ((replicate (N (ocpSize impl) + 1) None)
                         [0 := Some (vadd (quad_dfdu (cost ! 0)) (mat_vec (quad_dfdux (cost ! 0)) x0))])"
  using assms
  by (auto simp: solve_transcribe_def Let_def dynamics_fold cost_fold
           simp del: upt_Suc replicate.simps
           split: if_splits sum.splits prod.splits)

lemma solve_transcribe_constraints:
  assumes "solve_transcribe impl x0 dynamics cost (Some constr) = Inr dat"
  shows "qp_lg dat = fold (\<lambda>k a. a[k := Some (stage_bound x0 constr k)]) [0..<N (ocpSize impl) + 1]
                       (replicate (N (ocpSize impl) + 1) None)"
    and "qp_ug dat = fold (\<lambda>k a. a[k := Some (stage_bound x0 constr k)]) [0..<N (ocpSize impl) + 1]
                       (replicate (N (ocpSize impl) + 1) None)"
    and "qp_C dat = fold (\<lambda>k a. a[k := Some (lin_dfdx (constr ! k))]) [0..<N (ocpSize impl) + 1]
                       (replicate (N (ocpSize impl) + 1) None)"
    and "qp_D dat = fold (\<lambda>k a. a[k := Some (lin_dfdu (constr ! k))]) [0..<N (ocpSize impl) + 1]
                       (replicate (N (ocpSize impl) + 1) None)"
    and "N (ocpSize impl) + 1 \<le> length constr"
proof -
  from assms obtain CC DD bd lg ug where
    l: "for_loop [0..<N (ocpSize impl) + 1] (constraints_body x0 constr)
          (replicate (N (ocpSize impl) + 1) None, replicate (N (ocpSize impl) + 1) None, [],
           replicate (N (ocpSize impl) + 1) None, replicate (N (ocpSize impl) + 1) None)
        = Inr (CC, DD, bd, lg, ug)"
    and d: "qp_lg dat = lg" "qp_ug dat = ug" "qp_C dat = CC" "qp_D dat = DD"
    by (auto simp: solve_transcribe_def Let_def dynamics_fold cost_fold
             simp del: upt_Suc replicate.simps
             split: if_splits sum.splits prod.splits)
  have e: "length ([] :: vector_t list) = 0" by simp
  note I = constraints_loop_inv [OF l e]
  from I d show "qp_lg dat = fold (\<lambda>k a. a[k := Some (stage_bound x0 constr k)]) [0..<N (ocpSize impl) + 1]
                       (replicate (N (ocpSize impl) + 1) None)" by simp
  from I d show "qp_ug dat = fold (\<lambda>k a. a[k := Some (stage_bound x0 constr k)]) [0..<N (ocpSize impl) + 1]
                       (replicate (N (ocpSize impl) + 1) None)" by simp
  from I d show "qp_C dat = fold (\<lambda>k a. a[k := Some (lin_dfdx (constr ! k))]) [0..<N (ocpSize impl) + 1]
                       (replicate (N (ocpSize impl) + 1) None)" by simp
  from I d show "qp_D dat = fold (\<lambda>k a. a[k := Some (lin_dfdu (constr ! k))]) [0..<N (ocpSize impl) + 1]
                       (replicate (N (ocpSize impl) + 1) None)" by simp
  from I show "N (ocpSize impl) + 1 \<le> length constr" by simp
qed

lemma solve_transcribe_no_constraints:
  assumes "solve_transcribe impl x0 dynamics cost None = Inr dat"
  shows "qp_lg dat = replicate (N (ocpSize impl) + 1) None"
    and "qp_ug dat = replicate (N (ocpSize impl) + 1) None"
  using assms
  by (auto simp: solve_transcribe_def Let_def dynamics_fold cost_fold
           simp del: upt_Suc replicate.simps
           split: if_splits sum.splits prod.splits)

lemma solve_Inr:
  assumes "solve H impl x0 dynamics cost constraints st inp verbose = Inr r"
  shows "\<exists>dat. solve_transcribe impl x0 dynamics cost constraints = Inr dat \<and>
           qp (r_impl r) = (qp impl)\<lparr>qp_in := Some dat\<rparr> \<and>
           (qpSol (r_impl r), workspace (r_impl r)) =
              d_ocp_qp_ipm_solve H (qp (r_impl r)) (qpSol impl) (arg impl) (workspace impl) \<and>
           ocpSize (r_impl r) = ocpSize impl \<and>
           r_status r = ws_status (workspace (r_impl r)) \<and>
           getStateSolution (r_impl r) x0 st = Inr (r_stateTrajectory r) \<and>
           getInputSolution (r_impl r) inp = Inr (r_inputTrajectory r) \<and>
           r_dynamics r = dynamics \<and> r_cost r = cost \<and> r_constraints r = constraints \<and>
           r_stderr r = (if verbose then printStatus (r_impl r) else [])"
  using assms
  apply (simp add: solve_def Let_def d_ocp_qp_set_all_def d_ocp_qp_ipm_get_status_def split: sum.splits prod.splits)
  apply (auto simp: getStateSolution_def getInputSolution_def printStatus_def Let_def
       getStateSolution_body_def getInputSolution_body_def)
  done

lemma length_resize_std: "length (resize_std n d xs) = n"
  by (simp add: resize_std_def)

lemma state_loop_Inr:
  assumes "for_loop ks (getStateSolution_body impl) st = Inr st'"
  shows "st' = fold (\<lambda>k a. a[k := vec_of_buffer (nx (ocpSize impl) ! k) (sol_x (qpSol impl) k)]) ks st"
  using assms
  by (induction ks arbitrary: st)
     (auto simp: getStateSolution_body_def d_ocp_qp_sol_get_x_def split: if_splits)

lemma state_loop_ok:
  assumes "\<forall>k \<in> set ks. k < length (nx (ocpSize impl))"
  shows "\<exists>st'. for_loop ks (getStateSolution_body impl) st = Inr st'"
  using assms
  by (induction ks arbitrary: st) (auto simp: getStateSolution_body_def)

lemma input_loop_Inr:
  assumes "for_loop ks (getInputSolution_body impl) inp = Inr inp'"
  shows "inp' = fold (\<lambda>k a. a[k := vec_of_buffer (nu (ocpSize impl) ! k) (sol_u (qpSol impl) k)]) ks inp"
  using assms
  by (induction ks arbitrary: inp)
     (auto simp: getInputSolution_body_def d_ocp_qp_sol_get_u_def split: if_splits)

lemma input_loop_ok:
  assumes "\<forall>k \<in> set ks. k < length (nu (ocpSize impl))"
  shows "\<exists>inp'. for_loop ks (getInputSolution_body impl) inp = Inr inp'"
  using assms
  by (induction ks arbitrary: inp) (auto simp: getInputSolution_body_def)

lemma getStateSolution_Inr:
  assumes "getStateSolution impl x0 st = Inr st'"
  shows "length st' = N (ocpSize impl) + 1"
    and "st' ! 0 = x0"
    and "1 \<le> k \<Longrightarrow> k \<le> N (ocpSize impl) \<Longrightarrow>
           st' ! k = vec_of_buffer (nx (ocpSize impl) ! k) (sol_x (qpSol impl) k)"
proof -
  let ?s = "(resize_std (N (ocpSize impl) + 1) [] st)[0 := x0]"
  from assms have l: "for_loop [1..<N (ocpSize impl) + 1] (getStateSolution_body impl) ?s = Inr st'"
    by (simp add: getStateSolution_def Let_def)
  note e = state_loop_Inr [OF l]
  have len: "length ?s = N (ocpSize impl) + 1"
    by (simp add: length_resize_std)
  show "length st' = N (ocpSize impl) + 1"
    by (simp only: e fold_upd_length len)
  have "0 < length ?s" using len by simp
  then show "st' ! 0 = x0"
    by (simp only: e fold_upd_nth) (auto simp: length_resize_std)
  assume k: "1 \<le> k" "k \<le> N (ocpSize impl)"
  then have "k < length ?s" using len by simp
  then show "st' ! k = vec_of_buffer (nx (ocpSize impl) ! k) (sol_x (qpSol impl) k)"
    using k by (simp only: e fold_upd_nth) simp
qed

lemma getInputSolution_Inr:
  assumes "getInputSolution impl inp = Inr inp'"
  shows "length inp' = N (ocpSize impl)"
    and "k < N (ocpSize impl) \<Longrightarrow>
           inp' ! k = vec_of_buffer (nu (ocpSize impl) ! k) (sol_u (qpSol impl) k)"
proof -
  let ?s = "resize_std (N (ocpSize impl)) [] inp"
  from assms have l: "for_loop [0..<N (ocpSize impl)] (getInputSolution_body impl) ?s = Inr inp'"
    by (simp add: getInputSolution_def Let_def)
  note e = input_loop_Inr [OF l]
  have len: "length ?s = N (ocpSize impl)"
    by (simp add: length_resize_std)
  show "length inp' = N (ocpSize impl)"
    by (simp only: e fold_upd_length len)
  assume k: "k < N (ocpSize impl)"
  then have "k < length ?s" using len by simp
  then show "inp' ! k = vec_of_buffer (nu (ocpSize impl) ! k) (sol_u (qpSol impl) k)"
    using k by (simp only: e fold_upd_nth) simp
qed

lemma length_vec_of_buffer: "length (vec_of_buffer n buf) = n"
  by (simp add: vec_of_buffer_def)

lemma constraints_body_ok:
  assumes "k < length constr" and "length bd = k"
    and "k = 0 \<longrightarrow> can_mul_vec (lin_dfdx (constr ! 0)) x0 \<and>
                   length (lin_f (constr ! 0)) = rows (lin_dfdx (constr ! 0))"
  shows "\<exists>s'. constraints_body x0 constr k (CC, DD, bd, llg, uug) = Inr s'"
proof (cases "k = 0")
  case True
  with assms show ?thesis
    by (simp add: constraints_body_def Let_def vneg_def)
next
  case False
  with assms show ?thesis
    by (simp add: constraints_body_def Let_def)
qed

lemma constraints_loop_ok:
  assumes "m \<le> length constr" and "length bd = j"
    and "j = 0 \<longrightarrow> can_mul_vec (lin_dfdx (constr ! 0)) x0 \<and>
                   length (lin_f (constr ! 0)) = rows (lin_dfdx (constr ! 0))"
  shows "\<exists>s'. for_loop [j..<m] (constraints_body x0 constr) (CC, DD, bd, llg, uug) = Inr s'"
  using assms
proof (induction "m - j" arbitrary: j CC DD bd llg uug)
  case 0
  then show ?case by simp
next
  case (Suc d)
  then have jm: "j < m" by simp
  then have up: "[j..<m] = j # [Suc j..<m]" by (simp add: upt_conv_Cons)
  from jm Suc.prems(1) have jc: "j < length constr" by simp
  from constraints_body_ok [OF jc Suc.prems(2) Suc.prems(3)]
  obtain CC1 DD1 bd1 llg1 uug1 where
    b: "constraints_body x0 constr j (CC, DD, bd, llg, uug) = Inr (CC1, DD1, bd1, llg1, uug1)"
    by (metis prod_cases5)
  note B = constraints_body_Inr [OF b Suc.prems(2)]
  have d: "d = m - Suc j" using Suc.hyps(2) by simp
  from B have len: "length bd1 = Suc j" by simp
  have "\<exists>s'. for_loop [Suc j..<m] (constraints_body x0 constr) (CC1, DD1, bd1, llg1, uug1) = Inr s'"
    by (rule Suc.hyps(1) [OF d Suc.prems(1) len]) simp
  with b show ?case
    by (simp add: up)
qed

lemma solve_transcribe_ok:
  assumes "solve_requires impl x0 dynamics cost constraints"
  shows "\<exists>dat. solve_transcribe impl x0 dynamics cost constraints = Inr dat"
proof (cases constraints)
  case None
  with assms show ?thesis
    by (auto simp: solve_requires_def solve_transcribe_def Let_def
             simp del: upt_Suc replicate.simps split: prod.splits)
next
  case (Some constr)
  with assms have c: "N (ocpSize impl) + 1 \<le> length constr"
    "(0::nat) = 0 \<longrightarrow> can_mul_vec (lin_dfdx (constr ! 0)) x0 \<and>
          length (lin_f (constr ! 0)) = rows (lin_dfdx (constr ! 0))"
    by (simp_all add: solve_requires_def)
  have e: "length ([] :: vector_t list) = 0" by simp
  from constraints_loop_ok [OF c(1) e c(2)]
  obtain s' where "for_loop [0..<N (ocpSize impl) + 1] (constraints_body x0 constr)
          (replicate (N (ocpSize impl) + 1) None, replicate (N (ocpSize impl) + 1) None, [],
           replicate (N (ocpSize impl) + 1) None, replicate (N (ocpSize impl) + 1) None) = Inr s'"
    by blast
  with assms Some show ?thesis
    by (auto simp: solve_requires_def solve_transcribe_def Let_def
             simp del: upt_Suc replicate.simps split: prod.splits)
qed

lemma solve_ok:
  assumes "solve_requires impl x0 dynamics cost constraints"
  shows "\<exists>r. solve H impl x0 dynamics cost constraints st inp verbose = Inr r"
proof -
  from solve_transcribe_ok [OF assms] obtain dat where
    t: "solve_transcribe impl x0 dynamics cost constraints = Inr dat" by blast
  obtain sl w where
    s: "d_ocp_qp_ipm_solve H (d_ocp_qp_set_all dat (qp impl)) (qpSol impl) (arg impl) (workspace impl) = (sl, w)"
    by (cases "d_ocp_qp_ipm_solve H (d_ocp_qp_set_all dat (qp impl)) (qpSol impl) (arg impl) (workspace impl)") auto
  let ?impl = "impl\<lparr>qp := d_ocp_qp_set_all dat (qp impl), qpSol := sl, workspace := w\<rparr>"
  from assms have "\<forall>k \<in> set [1..<N (ocpSize ?impl) + 1]. k < length (nx (ocpSize ?impl))"
    by (auto simp: solve_requires_def)
  from state_loop_ok [OF this] obtain st' where
    a: "getStateSolution ?impl x0 st = Inr st'"
    by (auto simp: getStateSolution_def Let_def simp del: upt_Suc)
  from assms have "\<forall>k \<in> set [0..<N (ocpSize ?impl)]. k < length (nu (ocpSize ?impl))"
    by (auto simp: solve_requires_def)
  from input_loop_ok [OF this] obtain inp' where
    b: "getInputSolution ?impl inp = Inr inp'"
    by (auto simp: getInputSolution_def Let_def simp del: upt_Suc)
  from t s a b show ?thesis
    by (simp add: solve_def Let_def)
qed

lemma state_loop_range:
  assumes "for_loop ks (getStateSolution_body impl) st = Inr st'"
  shows "\<forall>k \<in> set ks. k < length (nx (ocpSize impl))"
  using assms
  by (induction ks arbitrary: st) (auto simp: getStateSolution_body_def split: if_splits)

lemma input_loop_range:
  assumes "for_loop ks (getInputSolution_body impl) inp = Inr inp'"
  shows "\<forall>k \<in> set ks. k < length (nu (ocpSize impl))"
  using assms
  by (induction ks arbitrary: inp) (auto simp: getInputSolution_body_def split: if_splits)

lemma constraints_loop_stage0:
  assumes "for_loop [0..<Suc m] (constraints_body x0 constr) (CC, DD, [], llg, uug) = Inr s'"
  shows "can_mul_vec (lin_dfdx (constr ! 0)) x0 \<and>
         length (lin_f (constr ! 0)) = rows (lin_dfdx (constr ! 0))"
proof -
  have "[0..<Suc m] = 0 # [1..<Suc m]"
    by (simp add: upt_conv_Cons del: upt_Suc)
  with assms obtain s1 where "constraints_body x0 constr 0 (CC, DD, [], llg, uug) = Inr s1"
    by (auto split: sum.splits simp del: upt_Suc)
  then show ?thesis
    by (auto simp: constraints_body_def Let_def vneg_def split: if_splits)
qed

lemma solve_transcribe_requires:
  assumes "solve_transcribe impl x0 dynamics cost constraints = Inr dat"
  shows "0 < N (ocpSize impl) \<and>
     length dynamics = N (ocpSize impl) \<and>
     length cost = N (ocpSize impl) + 1 \<and>
     can_mul_vec (lin_dfdx (dynamics ! 0)) x0 \<and>
     length (lin_f (dynamics ! 0)) = rows (lin_dfdx (dynamics ! 0)) \<and>
     can_mul_vec (quad_dfdux (cost ! 0)) x0 \<and>
     length (quad_dfdu (cost ! 0)) = rows (quad_dfdux (cost ! 0)) \<and>
     (case constraints of
        None \<Rightarrow> True
      | Some constr \<Rightarrow>
          N (ocpSize impl) + 1 \<le> length constr \<and>
          can_mul_vec (lin_dfdx (constr ! 0)) x0 \<and>
          length (lin_f (constr ! 0)) = rows (lin_dfdx (constr ! 0)))"
proof -
  from assms have a: "0 < N (ocpSize impl) \<and>
     length dynamics = N (ocpSize impl) \<and>
     length cost = N (ocpSize impl) + 1 \<and>
     can_mul_vec (lin_dfdx (dynamics ! 0)) x0 \<and>
     length (lin_f (dynamics ! 0)) = rows (lin_dfdx (dynamics ! 0)) \<and>
     can_mul_vec (quad_dfdux (cost ! 0)) x0 \<and>
     length (quad_dfdu (cost ! 0)) = rows (quad_dfdux (cost ! 0))"
    by (auto simp: solve_transcribe_def Let_def dynamics_fold cost_fold
             simp del: upt_Suc replicate.simps
             split: if_splits sum.splits prod.splits)
  show ?thesis
  proof (cases constraints)
    case None
    with a show ?thesis by simp
  next
    case (Some constr)
    from assms [unfolded Some] obtain s' where
      l: "for_loop [0..<N (ocpSize impl) + 1] (constraints_body x0 constr)
          (replicate (N (ocpSize impl) + 1) None, replicate (N (ocpSize impl) + 1) None, [],
           replicate (N (ocpSize impl) + 1) None, replicate (N (ocpSize impl) + 1) None)
        = Inr s'"
      by (auto simp: solve_transcribe_def Let_def dynamics_fold cost_fold
             simp del: upt_Suc replicate.simps
             split: if_splits sum.splits prod.splits)
    from constraints_loop_stage0 [OF l [unfolded Suc_eq_plus1 [symmetric]]]
         solve_transcribe_constraints(5) [OF assms [unfolded Some]] a Some
    show ?thesis by simp
  qed
qed

lemma solve_Inr_requires:
  assumes "solve H impl x0 dynamics cost constraints st inp verbose = Inr r"
  shows "solve_requires impl x0 dynamics cost constraints"
proof -
  from solve_Inr [OF assms] obtain dat where
    t: "solve_transcribe impl x0 dynamics cost constraints = Inr dat" and
    o: "ocpSize (r_impl r) = ocpSize impl" and
    a: "getStateSolution (r_impl r) x0 st = Inr (r_stateTrajectory r)" and
    b: "getInputSolution (r_impl r) inp = Inr (r_inputTrajectory r)"
    by auto
  note T = solve_transcribe_requires [OF t]
  from a have "\<forall>k \<in> set [1..<N (ocpSize impl) + 1]. k < length (nx (ocpSize impl))"
    unfolding getStateSolution_def Let_def o
    by (rule state_loop_range [of _ "r_impl r", unfolded o])
  with T have x: "N (ocpSize impl) < length (nx (ocpSize impl))"
    by auto
  from b have "\<forall>k \<in> set [0..<N (ocpSize impl)]. k < length (nu (ocpSize impl))"
    unfolding getInputSolution_def Let_def o
    by (rule input_loop_range [of _ "r_impl r", unfolded o])
  with T have u: "N (ocpSize impl) \<le> length (nu (ocpSize impl))"
    by (cases "N (ocpSize impl)") auto
  from T x u show ?thesis
    unfolding solve_requires_def by simp
qed

text \<open>
  \<^verbatim>\<open>solve\<close> returns exactly when it is called as it requires: every other call ends in
  a failed assertion or an access out of range.
\<close>

lemma solve_returns_iff:
  "(\<exists>r. solve H impl x0 dynamics cost constraints st inp verbose = Inr r) \<longleftrightarrow>
   solve_requires impl x0 dynamics cost constraints"
  using solve_ok solve_Inr_requires by blast

lemma ex_impl_ocpSize: "ocpSize ex_impl = ex_size\<lparr>nx := [0, 2, 2]\<rparr>"
proof -
  from ex_impl_prepared have "isSizeEqual ex_impl (ex_size\<lparr>nx := (nx ex_size)[0 := 0]\<rparr>)"
    by simp
  then show ?thesis
    by (intro OcpSize.equality) (simp_all add: isSizeEqual_def ex_size_def)
qed

lemma ex_requires: "solve_requires ex_impl ex_x0 ex_dynamics ex_cost (Some ex_constraints)"
  by (simp add: solve_requires_def ex_impl_ocpSize ex_size_def ex_x0_def ex_dynamics_def
        ex_cost_def ex_constraints_def can_mul_vec_def)

lemma ex_solve:
  "\<exists>r. solve ex_hpipm ex_impl ex_x0 ex_dynamics ex_cost (Some ex_constraints) [] [] True = Inr r"
  using ex_requires by (rule solve_ok)

lemma ex_N: "N (ocpSize ex_impl) = 2"
  by (simp add: ex_impl_ocpSize ex_size_def)

text \<open>
  Claim C1. In the problem that \<^verbatim>\<open>solve\<close> hands to HPIPM, the stage-0 dynamics residual is
  \<^verbatim>\<open>dynamics[0].f + dynamics[0].dfdx * x0\<close>, the stage-0 input gradient of the cost is
  \<^verbatim>\<open>cost[0].dfdu + cost[0].dfdux * x0\<close>, with constraints the stage-0 bound (lower and
  upper) is \<^verbatim>\<open>-constr[0].f - constr[0].dfdx * x0\<close>, and at every stage \<open>k \<ge> 1\<close> the data
  \<open>A, B, b\<close> (for \<open>k < N\<close>) and \<open>Q, R, S, q, r\<close> (for \<open>k \<le> N\<close>) are those of the stage-\<open>k\<close>
  approximation.
\<close>

theorem solve_stage0_elimination:
  assumes "solve H impl x0 dynamics cost constraints st inp verbose = Inr r"
  shows "\<exists>dat. qp_in (qp (r_impl r)) = Some dat \<and>
     qp_b dat ! 0 = Some (vadd (lin_f (dynamics ! 0)) (mat_vec (lin_dfdx (dynamics ! 0)) x0)) \<and>
     qp_r dat ! 0 = Some (vadd (quad_dfdu (cost ! 0)) (mat_vec (quad_dfdux (cost ! 0)) x0)) \<and>
     (\<forall>constr. constraints = Some constr \<longrightarrow>
        qp_lg dat ! 0 = Some (vsub (vneg (lin_f (constr ! 0))) (mat_vec (lin_dfdx (constr ! 0)) x0)) \<and>
        qp_ug dat ! 0 = Some (vsub (vneg (lin_f (constr ! 0))) (mat_vec (lin_dfdx (constr ! 0)) x0))) \<and>
     (\<forall>k. 1 \<le> k \<and> k < N (ocpSize impl) \<longrightarrow>
        qp_A dat ! k = Some (lin_dfdx (dynamics ! k)) \<and>
        qp_B dat ! k = Some (lin_dfdu (dynamics ! k)) \<and>
        qp_b dat ! k = Some (lin_f (dynamics ! k))) \<and>
     (\<forall>k. 1 \<le> k \<and> k \<le> N (ocpSize impl) \<longrightarrow>
        qp_Q dat ! k = Some (quad_dfdxx (cost ! k)) \<and>
        qp_R dat ! k = Some (quad_dfduu (cost ! k)) \<and>
        qp_S dat ! k = Some (quad_dfdux (cost ! k)) \<and>
        qp_q dat ! k = Some (quad_dfdx (cost ! k)) \<and>
        qp_r dat ! k = Some (quad_dfdu (cost ! k)))"
proof -
  from solve_Inr [OF assms] obtain dat where
    t: "solve_transcribe impl x0 dynamics cost constraints = Inr dat" and
    q: "qp_in (qp (r_impl r)) = Some dat"
    by auto
  note pre = solve_transcribe_pre [OF t]
  note D = solve_transcribe_dynamics [OF t]
  note C = solve_transcribe_cost [OF t]
  have b0: "qp_b dat ! 0 = Some (vadd (lin_f (dynamics ! 0)) (mat_vec (lin_dfdx (dynamics ! 0)) x0))"
    using pre by (simp add: D fold_upd_nth)
  have r0: "qp_r dat ! 0 = Some (vadd (quad_dfdu (cost ! 0)) (mat_vec (quad_dfdux (cost ! 0)) x0))"
    by (simp add: C fold_upd_nth del: upt_Suc replicate.simps)
  have g0: "qp_lg dat ! 0 = Some (vsub (vneg (lin_f (constr ! 0))) (mat_vec (lin_dfdx (constr ! 0)) x0)) \<and>
        qp_ug dat ! 0 = Some (vsub (vneg (lin_f (constr ! 0))) (mat_vec (lin_dfdx (constr ! 0)) x0))"
    if "constraints = Some constr" for constr
    using solve_transcribe_constraints(1,2) [OF t [unfolded that]]
    by (simp add: fold_upd_nth stage_bound_def del: upt_Suc replicate.simps)
  have dk: "qp_A dat ! k = Some (lin_dfdx (dynamics ! k)) \<and>
        qp_B dat ! k = Some (lin_dfdu (dynamics ! k)) \<and>
        qp_b dat ! k = Some (lin_f (dynamics ! k))"
    if "1 \<le> k \<and> k < N (ocpSize impl)" for k
    using that by (simp add: D fold_upd_nth)
  have ck: "qp_Q dat ! k = Some (quad_dfdxx (cost ! k)) \<and>
        qp_R dat ! k = Some (quad_dfduu (cost ! k)) \<and>
        qp_S dat ! k = Some (quad_dfdux (cost ! k)) \<and>
        qp_q dat ! k = Some (quad_dfdx (cost ! k)) \<and>
        qp_r dat ! k = Some (quad_dfdu (cost ! k))"
    if "1 \<le> k \<and> k \<le> N (ocpSize impl)" for k
    using that by (simp add: C fold_upd_nth del: upt_Suc replicate.simps)
  from q b0 r0 g0 dk ck show ?thesis
    by blast
qed

theorem solve_stage0_elimination_witness:
  "\<exists>r dat. solve ex_hpipm ex_impl ex_x0 ex_dynamics ex_cost (Some ex_constraints) [] [] True = Inr r \<and>
     qp_in (qp (r_impl r)) = Some dat \<and>
     qp_b dat ! 0 = Some [4, 2] \<and> qp_r dat ! 0 = Some [6] \<and>
     qp_lg dat ! 0 = Some [- 4] \<and> qp_ug dat ! 0 = Some [- 4] \<and>
     qp_A dat ! 1 = Some (Matrix 2 2 [[1, 2], [0, 1]]) \<and>
     qp_B dat ! 1 = Some (Matrix 2 1 [[0], [2]]) \<and>
     qp_b dat ! 1 = Some [0, 5] \<and>
     qp_Q dat ! 2 = Some (Matrix 2 2 [[5, 0], [0, 5]]) \<and>
     qp_q dat ! 2 = Some [2, 2] \<and>
     qp_r dat ! 1 = Some [4]"
proof -
  from ex_solve obtain r where
    r: "solve ex_hpipm ex_impl ex_x0 ex_dynamics ex_cost (Some ex_constraints) [] [] True = Inr r"
    by blast
  from solve_stage0_elimination [OF r] obtain dat where
    d: "qp_in (qp (r_impl r)) = Some dat"
     "qp_b dat ! 0 = Some (vadd (lin_f (ex_dynamics ! 0)) (mat_vec (lin_dfdx (ex_dynamics ! 0)) ex_x0))"
     "qp_r dat ! 0 = Some (vadd (quad_dfdu (ex_cost ! 0)) (mat_vec (quad_dfdux (ex_cost ! 0)) ex_x0))"
     "qp_lg dat ! 0 = Some (vsub (vneg (lin_f (ex_constraints ! 0))) (mat_vec (lin_dfdx (ex_constraints ! 0)) ex_x0))"
     "qp_ug dat ! 0 = Some (vsub (vneg (lin_f (ex_constraints ! 0))) (mat_vec (lin_dfdx (ex_constraints ! 0)) ex_x0))"
     "1 \<le> (1::nat) \<and> 1 < N (ocpSize ex_impl) \<longrightarrow>
        qp_A dat ! 1 = Some (lin_dfdx (ex_dynamics ! 1)) \<and>
        qp_B dat ! 1 = Some (lin_dfdu (ex_dynamics ! 1)) \<and>
        qp_b dat ! 1 = Some (lin_f (ex_dynamics ! 1))"
     "1 \<le> (2::nat) \<and> 2 \<le> N (ocpSize ex_impl) \<longrightarrow>
        qp_Q dat ! 2 = Some (quad_dfdxx (ex_cost ! 2)) \<and>
        qp_q dat ! 2 = Some (quad_dfdx (ex_cost ! 2))"
     "1 \<le> (1::nat) \<and> 1 \<le> N (ocpSize ex_impl) \<longrightarrow>
        qp_r dat ! 1 = Some (quad_dfdu (ex_cost ! 1))"
    by blast
  have v: "vadd (lin_f (ex_dynamics ! 0)) (mat_vec (lin_dfdx (ex_dynamics ! 0)) ex_x0) = [4, 2]"
    "vadd (quad_dfdu (ex_cost ! 0)) (mat_vec (quad_dfdux (ex_cost ! 0)) ex_x0) = [6]"
    "vsub (vneg (lin_f (ex_constraints ! 0))) (mat_vec (lin_dfdx (ex_constraints ! 0)) ex_x0) = [- 4]"
    by (simp_all add: ex_dynamics_def ex_cost_def ex_constraints_def ex_x0_def vadd_def vsub_def
          vneg_def mat_vec_def dot_upto_def coeff_def upt_rec)
  from r d show ?thesis
    unfolding v ex_N
    by (intro exI [of _ r] exI [of _ dat])
       (simp add: ex_dynamics_def ex_cost_def)
qed

text \<open>
  Claim C3. With constraints given, at every stage \<open>k \<le> N\<close> the lower and the upper
  bound of the general constraints handed to HPIPM are the same vector, the negated
  residual \<^verbatim>\<open>-constr[k].f\<close>, at stage 0 less \<^verbatim>\<open>constr[0].dfdx * x0\<close>.
\<close>

theorem solve_equality_bounds:
  assumes "solve H impl x0 dynamics cost (Some constr) st inp verbose = Inr r"
    and "k \<le> N (ocpSize impl)"
  shows "\<exists>dat. qp_in (qp (r_impl r)) = Some dat \<and>
           qp_lg dat ! k = qp_ug dat ! k \<and>
           qp_lg dat ! k =
             Some (if k = 0
                   then vsub (vneg (lin_f (constr ! 0))) (mat_vec (lin_dfdx (constr ! 0)) x0)
                   else vneg (lin_f (constr ! k)))"
proof -
  from solve_Inr [OF assms(1)] obtain dat where
    t: "solve_transcribe impl x0 dynamics cost (Some constr) = Inr dat" and
    q: "qp_in (qp (r_impl r)) = Some dat"
    by auto
  note G = solve_transcribe_constraints(1,2) [OF t]
  have "qp_lg dat ! k = Some (stage_bound x0 constr k)" "qp_ug dat ! k = Some (stage_bound x0 constr k)"
    using assms(2) by (simp_all add: G fold_upd_nth del: upt_Suc replicate.simps)
  with q show ?thesis
    by (simp add: stage_bound_def)
qed

theorem solve_equality_bounds_witness:
  "\<exists>r dat. solve ex_hpipm ex_impl ex_x0 ex_dynamics ex_cost (Some ex_constraints) [] [] True = Inr r \<and>
     qp_in (qp (r_impl r)) = Some dat \<and>
     qp_lg dat ! 0 = qp_ug dat ! 0 \<and> qp_lg dat ! 0 = Some [- 4] \<and>
     qp_lg dat ! 2 = qp_ug dat ! 2 \<and> qp_lg dat ! 2 = Some [- 6]"
proof -
  from ex_solve obtain r where
    r: "solve ex_hpipm ex_impl ex_x0 ex_dynamics ex_cost (Some ex_constraints) [] [] True = Inr r"
    by blast
  have k: "(0::nat) \<le> N (ocpSize ex_impl)" "(2::nat) \<le> N (ocpSize ex_impl)"
    by (simp_all add: ex_N)
  from solve_equality_bounds [OF r k(1)] solve_equality_bounds [OF r k(2)]
  obtain dat where
    d: "qp_in (qp (r_impl r)) = Some dat"
       "qp_lg dat ! 0 = qp_ug dat ! 0"
       "qp_lg dat ! 0 = Some (vsub (vneg (lin_f (ex_constraints ! 0))) (mat_vec (lin_dfdx (ex_constraints ! 0)) ex_x0))"
       "qp_lg dat ! 2 = qp_ug dat ! 2"
       "qp_lg dat ! 2 = Some (vneg (lin_f (ex_constraints ! 2)))"
    by auto
  have v: "vsub (vneg (lin_f (ex_constraints ! 0))) (mat_vec (lin_dfdx (ex_constraints ! 0)) ex_x0) = [- 4]"
    "vneg (lin_f (ex_constraints ! 2)) = [- 6]"
    by (simp_all add: ex_constraints_def ex_x0_def vsub_def vneg_def mat_vec_def dot_upto_def
          coeff_def upt_rec)
  from r d show ?thesis
    unfolding v by blast
qed

text \<open>
  Claim C7. \<^verbatim>\<open>solve\<close> does not change the approximations it receives by reference: after
  the call the dynamics, the cost and the constraints are what they were before it.
\<close>

theorem solve_inputs_unchanged:
  assumes "solve H impl x0 dynamics cost constraints st inp verbose = Inr r"
  shows "r_dynamics r = dynamics \<and> r_cost r = cost \<and> r_constraints r = constraints"
  using solve_Inr [OF assms] by auto

theorem solve_inputs_unchanged_witness:
  "\<exists>r. solve ex_hpipm ex_impl ex_x0 ex_dynamics ex_cost (Some ex_constraints) [] [] True = Inr r \<and>
     r_dynamics r = ex_dynamics \<and> r_cost r = ex_cost \<and> r_constraints r = Some ex_constraints \<and>
     lin_f (r_dynamics r ! 0) = [1, 0] \<and> quad_dfdu (r_cost r ! 0) = [1]"
proof -
  from ex_solve obtain r where
    r: "solve ex_hpipm ex_impl ex_x0 ex_dynamics ex_cost (Some ex_constraints) [] [] True = Inr r"
    by blast
  from r solve_inputs_unchanged [OF r] show ?thesis
    by (intro exI [of _ r]) (simp add: ex_dynamics_def ex_cost_def)
qed

text \<open>
  Claim C8. After \<^verbatim>\<open>solve\<close> the state trajectory has \<open>N + 1\<close> entries, the first is the
  initial state \<open>x0\<close> as passed and entry \<open>k \<ge> 1\<close> has \<^verbatim>\<open>nx[k]\<close> coefficients; the input
  trajectory has \<open>N\<close> entries and entry \<open>k\<close> has \<^verbatim>\<open>nu[k]\<close> coefficients.
\<close>

theorem solve_trajectory_shape:
  assumes "solve H impl x0 dynamics cost constraints st inp verbose = Inr r"
  shows "length (r_stateTrajectory r) = N (ocpSize impl) + 1 \<and>
         r_stateTrajectory r ! 0 = x0 \<and>
         (\<forall>k. 1 \<le> k \<and> k \<le> N (ocpSize impl) \<longrightarrow>
            length (r_stateTrajectory r ! k) = nx (ocpSize impl) ! k) \<and>
         length (r_inputTrajectory r) = N (ocpSize impl) \<and>
         (\<forall>k < N (ocpSize impl). length (r_inputTrajectory r ! k) = nu (ocpSize impl) ! k)"
proof -
  from solve_Inr [OF assms] have
    o: "ocpSize (r_impl r) = ocpSize impl" and
    a: "getStateSolution (r_impl r) x0 st = Inr (r_stateTrajectory r)" and
    b: "getInputSolution (r_impl r) inp = Inr (r_inputTrajectory r)"
    by auto
  note A = getStateSolution_Inr [OF a, unfolded o]
  note B = getInputSolution_Inr [OF b, unfolded o]
  show ?thesis
    using A(1,2) B(1) by (auto simp: A(3) B(2) length_vec_of_buffer)
qed

theorem solve_trajectory_shape_witness:
  "\<exists>r. solve ex_hpipm ex_impl ex_x0 ex_dynamics ex_cost (Some ex_constraints) [] [[9, 9, 9]] True = Inr r \<and>
     length (r_stateTrajectory r) = 3 \<and> r_stateTrajectory r ! 0 = [1, 2] \<and>
     length (r_stateTrajectory r ! 1) = 2 \<and> length (r_stateTrajectory r ! 2) = 2 \<and>
     length (r_inputTrajectory r) = 2 \<and>
     length (r_inputTrajectory r ! 0) = 1 \<and> length (r_inputTrajectory r ! 1) = 1"
proof -
  from solve_ok [OF ex_requires] obtain r where
    r: "solve ex_hpipm ex_impl ex_x0 ex_dynamics ex_cost (Some ex_constraints) [] [[9, 9, 9]] True = Inr r"
    by blast
  from r solve_trajectory_shape [OF r] show ?thesis
    by (intro exI [of _ r]) (simp add: ex_impl_ocpSize ex_size_def ex_x0_def)
qed

lemma status_message_codes:
  "status_message 0 = ''QP solved!''"
  "status_message 1 = ''Solver failed! Maximum number of iterations reached''"
  "status_message 2 = ''Solver failed! Minimum step length reached''"
  "status_message 3 = ''Solver failed! NaN in computations''"
  "status_message 4 = ''Solver failed! Unconsistent equality constraints''"
  "s \<notin> {0, 1, 2, 3, 4} \<Longrightarrow> status_message s = ''Solver failed! Unknown return flag''"
  by (simp_all add: status_message_def)




subsection \<open>Matrix algebra\<close>

lemma dot_upto_sum: "dot_upto n g = (\<Sum>k<n. g k)"
  by (simp add: dot_upto_def interv_sum_list_conv_sum_set_nat atLeast0LessThan)

lemma rows_mk_mat [simp]: "rows (mk_mat r c g) = r"
  by (simp add: mk_mat_def)

lemma cols_mk_mat [simp]: "cols (mk_mat r c g) = c"
  by (simp add: mk_mat_def)

lemma coeff_mk_mat [simp]: "i < r \<Longrightarrow> j < c \<Longrightarrow> coeff (mk_mat r c g) i j = g i j"
  by (simp add: mk_mat_def coeff_def)

lemma mk_mat_cong: "(\<And>i j. i < r \<Longrightarrow> j < c \<Longrightarrow> g i j = g' i j) \<Longrightarrow> mk_mat r c g = mk_mat r c g'"
  by (simp add: mk_mat_def)

lemma wf_mk_mat [simp]: "wf_mat (mk_mat r c g)"
  by (auto simp: wf_mat_def mk_mat_def)

lemma mk_mat_coeff: "wf_mat M \<Longrightarrow> mk_mat (rows M) (cols M) (coeff M) = M"
proof (cases M)
  case (Matrix r c xs)
  assume "wf_mat M"
  with Matrix have l: "length xs = r" and w: "\<And>row. row \<in> set xs \<Longrightarrow> length row = c"
    by (auto simp: wf_mat_def)
  have "map (\<lambda>i. map (\<lambda>j. xs ! i ! j) [0..<c]) [0..<r] = xs"
  proof (rule nth_equalityI)
    show "length (map (\<lambda>i. map (\<lambda>j. xs ! i ! j) [0..<c]) [0..<r]) = length xs"
      using l by simp
  next
    fix i assume "i < length (map (\<lambda>i. map (\<lambda>j. xs ! i ! j) [0..<c]) [0..<r])"
    then have i: "i < r" by simp
    with l have "length (xs ! i) = c" by (intro w) simp
    then have "map (\<lambda>j. xs ! i ! j) [0..<c] = xs ! i"
      by (metis map_nth)
    with i show "map (\<lambda>i. map (\<lambda>j. xs ! i ! j) [0..<c]) [0..<r] ! i = xs ! i"
      by simp
  qed
  with Matrix show ?thesis
    by (simp add: mk_mat_def coeff_def [abs_def])
qed

lemma rows_mmul [simp]: "rows (mmul A B) = rows A"
  by (simp add: mmul_def)

lemma cols_mmul [simp]: "cols (mmul A B) = cols B"
  by (simp add: mmul_def)

lemma rows_mtranspose [simp]: "rows (mtranspose A) = cols A"
  by (simp add: mtranspose_def)

lemma cols_mtranspose [simp]: "cols (mtranspose A) = rows A"
  by (simp add: mtranspose_def)

lemma wf_mmul [simp]: "wf_mat (mmul A B)"
  by (simp add: mmul_def)

lemma wf_mtranspose [simp]: "wf_mat (mtranspose A)"
  by (simp add: mtranspose_def)

lemma coeff_mmul:
  "i < rows A \<Longrightarrow> j < cols B \<Longrightarrow> coeff (mmul A B) i j = (\<Sum>k<cols A. coeff A i k * coeff B k j)"
  by (simp add: mmul_def dot_upto_sum)

lemma coeff_mtranspose: "i < cols A \<Longrightarrow> j < rows A \<Longrightarrow> coeff (mtranspose A) i j = coeff A j i"
  by (simp add: mtranspose_def)

lemma mmul_assoc:
  assumes "cols A = rows B"
  shows "mmul (mmul A B) C = mmul A (mmul B C)"
proof -
  have "(\<Sum>k<cols B. coeff (mmul A B) i k * coeff C k j) =
        (\<Sum>l<cols A. coeff A i l * coeff (mmul B C) l j)"
    if i: "i < rows A" and j: "j < cols C" for i j
  proof -
    have "(\<Sum>k<cols B. coeff (mmul A B) i k * coeff C k j) =
          (\<Sum>k<cols B. \<Sum>l<cols A. coeff A i l * coeff B l k * coeff C k j)"
      using i by (simp add: coeff_mmul sum_distrib_right)
    also have "\<dots> = (\<Sum>l<cols A. \<Sum>k<cols B. coeff A i l * coeff B l k * coeff C k j)"
      by (rule sum.swap)
    also have "\<dots> = (\<Sum>l<cols A. coeff A i l * coeff (mmul B C) l j)"
      using j assms by (simp add: coeff_mmul sum_distrib_left mult.assoc)
    finally show ?thesis .
  qed
  then have "mk_mat (rows A) (cols C) (\<lambda>i j. \<Sum>k<cols B. coeff (mmul A B) i k * coeff C k j) =
             mk_mat (rows A) (cols C) (\<lambda>i j. \<Sum>l<cols A. coeff A i l * coeff (mmul B C) l j)"
    by (rule mk_mat_cong)
  then show ?thesis
    by (simp add: mmul_def [of "mmul A B" C] mmul_def [of A "mmul B C"] dot_upto_sum)
qed

lemma mtranspose_mmul:
  assumes "cols A = rows B"
  shows "mtranspose (mmul A B) = mmul (mtranspose B) (mtranspose A)"
proof -
  have "coeff (mmul A B) j i = (\<Sum>k<rows B. coeff (mtranspose B) i k * coeff (mtranspose A) k j)"
    if "i < cols B" "j < rows A" for i j
    using that assms by (simp add: coeff_mmul coeff_mtranspose mult.commute)
  then have "mk_mat (cols B) (rows A) (\<lambda>i j. coeff (mmul A B) j i) =
             mk_mat (cols B) (rows A)
               (\<lambda>i j. \<Sum>k<rows B. coeff (mtranspose B) i k * coeff (mtranspose A) k j)"
    by (rule mk_mat_cong)
  then show ?thesis
    by (simp add: mtranspose_def [of "mmul A B"] mmul_def [of "mtranspose B" "mtranspose A"]
          dot_upto_sum)
qed

lemma mtranspose_identity: "mtranspose (identity n) = identity n"
  unfolding mtranspose_def identity_def
  by (auto intro: mk_mat_cong)

lemma mmul_identity_left:
  assumes "wf_mat B" and "rows B = n"
  shows "mmul (identity n) B = B"
proof -
  have "(\<Sum>k<n. coeff (identity n) i k * coeff B k j) = coeff B i j" if "i < n" for i j
  proof -
    have "(\<Sum>k<n. coeff (identity n) i k * coeff B k j) =
          (\<Sum>k<n. if i = k then coeff B k j else 0)"
      using that by (intro sum.cong) (simp_all add: identity_def)
    also have "\<dots> = coeff B i j"
      using that by simp
    finally show ?thesis .
  qed
  then have "mk_mat n (cols B) (\<lambda>i j. \<Sum>k<n. coeff (identity n) i k * coeff B k j) =
             mk_mat n (cols B) (coeff B)"
    by (intro mk_mat_cong)
  moreover have "rows (identity n) = n" "cols (identity n) = n"
    by (simp_all add: identity_def)
  ultimately have "mmul (identity n) B = mk_mat (rows B) (cols B) (coeff B)"
    using assms(2) by (simp add: mmul_def [of "identity n" B] dot_upto_sum)
  with assms(1) show ?thesis
    by (simp add: mk_mat_coeff)
qed

lemma inverse_product:
  assumes d: "rows L = n" "cols L = n" "rows Li = n" "cols Li = n" and w: "wf_mat Li"
    and r: "mmul L Li = identity n" and l: "mmul Li L = identity n"
  shows "mmul (mmul L (mtranspose L)) (mmul (mtranspose Li) Li) = identity n"
    and "mmul (mmul (mtranspose Li) Li) (mmul L (mtranspose L)) = identity n"
proof -
  have t1: "mmul (mtranspose L) (mtranspose Li) = identity n"
    using mtranspose_mmul [of Li L] d l by (simp add: mtranspose_identity)
  have t2: "mmul (mtranspose Li) (mtranspose L) = identity n"
    using mtranspose_mmul [of L Li] d r by (simp add: mtranspose_identity)
  have "mmul (mmul L (mtranspose L)) (mmul (mtranspose Li) Li) =
        mmul L (mmul (mtranspose L) (mmul (mtranspose Li) Li))"
    by (rule mmul_assoc) simp
  also have "mmul (mtranspose L) (mmul (mtranspose Li) Li) =
             mmul (mmul (mtranspose L) (mtranspose Li)) Li"
    by (rule mmul_assoc [symmetric]) (simp add: d)
  also have "\<dots> = Li"
    using w d by (simp add: t1 mmul_identity_left)
  finally show "mmul (mmul L (mtranspose L)) (mmul (mtranspose Li) Li) = identity n"
    by (simp add: r)
  have "mmul (mmul (mtranspose Li) Li) (mmul L (mtranspose L)) =
        mmul (mtranspose Li) (mmul Li (mmul L (mtranspose L)))"
    by (rule mmul_assoc) simp
  also have "mmul Li (mmul L (mtranspose L)) = mmul (mmul Li L) (mtranspose L)"
    by (rule mmul_assoc [symmetric]) (simp add: d)
  also have "\<dots> = mtranspose L"
    using d by (simp add: l mmul_identity_left)
  finally show "mmul (mmul (mtranspose Li) Li) (mmul L (mtranspose L)) = identity n"
    by (simp add: t2)
qed

lemma getRiccatiZeroStage_Inr:
  assumes "getRiccatiZeroStage impl A0 B0 b0 Q0 R0 S0 q0 r0 = Inr (P0, K0, p0, k0)"
  shows "K0 = spec_K0 (zero_stage_Rinv (ric_Lr0 impl))
                A0 B0 S0 (ric_P1 impl)"
    and "k0 = spec_k0 (zero_stage_Rinv (ric_Lr0 impl))
                B0 b0 r0 (ric_P1 impl) (ric_p1 impl)"
    and "P0 = spec_P0 (zero_stage_Rinv (ric_Lr0 impl))
                A0 B0 Q0 S0 (ric_P1 impl)"
    and "p0 = spec_p0 (zero_stage_Rinv (ric_Lr0 impl))
                A0 B0 b0 S0 q0 r0 (ric_P1 impl) (ric_p1 impl)"
  using assms
  by (simp_all add: getRiccatiZeroStage_def Let_def zero_stage_Rinv_def spec_K0_def spec_k0_def spec_P0_def spec_p0_def
        ric_Lr0_def ric_P1_def ric_p1_def d_ocp_qp_ipm_get_ric_P_def d_ocp_qp_ipm_get_ric_p_def
        d_ocp_qp_ipm_get_ric_Lr_def split: if_splits)

lemma rows_inverse_m [simp]: "rows (inverse_m M) = rows M"
  by (simp add: inverse_m_def Let_def)

lemma cols_inverse_m [simp]: "cols (inverse_m M) = rows M"
  by (simp add: inverse_m_def Let_def)

lemma wf_inverse_m [simp]: "wf_mat (inverse_m M)"
  by (simp add: inverse_m_def Let_def)

lemma dims_ric_Lr0 [simp]:
  "rows (ric_Lr0 impl) = nu (ocpSize impl) ! 0" "cols (ric_Lr0 impl) = nu (ocpSize impl) ! 0"
  by (simp_all add: ric_Lr0_def mat_of_buffer_def)

subsection \<open>The Riccati data of stage 0\<close>

lemma ex2_run:
  "getRiccatiZeroStage ex2_impl ex2_A0 ex2_B0 ex2_b0 ex2_Q0 ex2_R0 ex2_S0 ex2_q0 ex2_r0
     = Inr (Matrix 1 1 [[2]], Matrix 2 1 [[- 2], [1]], [2], [1, - 1])"
  by code_simp

lemma ex2_Lr0: "ric_Lr0 ex2_impl = Matrix 2 2 [[1, 0], [1, 1]]"
  by code_simp

lemma ex2_nu0: "nu (ocpSize ex2_impl) ! 0 = 2"
  by code_simp

lemma ex2_inverse:
  "mmul (ric_Lr0 ex2_impl) (inverse_m (ric_Lr0 ex2_impl)) = identity (nu (ocpSize ex2_impl) ! 0)"
  "mmul (inverse_m (ric_Lr0 ex2_impl)) (ric_Lr0 ex2_impl) = identity (nu (ocpSize ex2_impl) ! 0)"
  by code_simp+

text \<open>
  Claim C2 as the specification states it, with the inverse of the input cost taken as
  \<open>(Lr0^T Lr0)^-1\<close>, fails. For the lower triangular factor \<open>Lr0 = [[1, 0], [1, 1]]\<close> of
  \<open>R0 = [[1, 1], [1, 2]]\<close> the code returns \<open>K0 = [[-2], [1]]\<close>, \<open>k0 = [1, -1]\<close> and
  \<open>P0 = [[2]]\<close>, where the formulas of the specification give \<open>[[-1], [1]]\<close>, \<open>[1, -2]\<close>
  and \<open>[[3]]\<close>.
\<close>

theorem getRiccatiZeroStage_spec_counterexample:
  "getRiccatiZeroStage ex2_impl ex2_A0 ex2_B0 ex2_b0 ex2_Q0 ex2_R0 ex2_S0 ex2_q0 ex2_r0
     = Inr (Matrix 1 1 [[2]], Matrix 2 1 [[- 2], [1]], [2], [1, - 1]) \<and>
   ric_Lr0 ex2_impl = Matrix 2 2 [[1, 0], [1, 1]] \<and>
   spec_K0 (spec_Rinv (ric_Lr0 ex2_impl)) ex2_A0 ex2_B0 ex2_S0 (ric_P1 ex2_impl)
     = Matrix 2 1 [[- 1], [1]] \<and>
   spec_k0 (spec_Rinv (ric_Lr0 ex2_impl)) ex2_B0 ex2_b0 ex2_r0 (ric_P1 ex2_impl) (ric_p1 ex2_impl)
     = [1, - 2] \<and>
   spec_P0 (spec_Rinv (ric_Lr0 ex2_impl)) ex2_A0 ex2_B0 ex2_Q0 ex2_S0 (ric_P1 ex2_impl)
     = Matrix 1 1 [[3]] \<and>
   Matrix 2 1 [[- 2], [1]]
     \<noteq> spec_K0 (spec_Rinv (ric_Lr0 ex2_impl)) ex2_A0 ex2_B0 ex2_S0 (ric_P1 ex2_impl)"
  by (intro conjI ex2_run ex2_Lr0; code_simp)

text \<open>
  Claim C2, amended. The terms that \<^verbatim>\<open>getRiccatiZeroStage\<close> returns satisfy the closed-form
  backward-step equations with the inverse of the input cost taken as \<open>Lr0^-T Lr0^-1\<close>,
  where \<open>Lr0\<close> is the factor read from the solver; when \<open>Lr0\<close> is inverted, this matrix
  is the two-sided inverse of \<open>Lr0 Lr0^T\<close>: \<open>K0 = -(Lr0 Lr0^T)^-1 (S0 + B0^T P1 A0)\<close>, and
  the same for \<open>k0\<close>, \<open>P0\<close> and \<open>p0\<close>.
\<close>

theorem getRiccatiZeroStage_closed_form:
  assumes "getRiccatiZeroStage impl A0 B0 b0 Q0 R0 S0 q0 r0 = Inr (P0, K0, p0, k0)"
    and "mmul (ric_Lr0 impl) (inverse_m (ric_Lr0 impl)) = identity (nu (ocpSize impl) ! 0)"
    and "mmul (inverse_m (ric_Lr0 impl)) (ric_Lr0 impl) = identity (nu (ocpSize impl) ! 0)"
  shows "K0 = spec_K0 (zero_stage_Rinv (ric_Lr0 impl)) A0 B0 S0 (ric_P1 impl) \<and>
         k0 = spec_k0 (zero_stage_Rinv (ric_Lr0 impl)) B0 b0 r0 (ric_P1 impl) (ric_p1 impl) \<and>
         P0 = spec_P0 (zero_stage_Rinv (ric_Lr0 impl)) A0 B0 Q0 S0 (ric_P1 impl) \<and>
         p0 = spec_p0 (zero_stage_Rinv (ric_Lr0 impl)) A0 B0 b0 S0 q0 r0 (ric_P1 impl) (ric_p1 impl) \<and>
         mmul (mmul (ric_Lr0 impl) (mtranspose (ric_Lr0 impl))) (zero_stage_Rinv (ric_Lr0 impl))
           = identity (nu (ocpSize impl) ! 0) \<and>
         mmul (zero_stage_Rinv (ric_Lr0 impl)) (mmul (ric_Lr0 impl) (mtranspose (ric_Lr0 impl)))
           = identity (nu (ocpSize impl) ! 0)"
proof -
  note F = getRiccatiZeroStage_Inr [OF assms(1)]
  have d: "rows (ric_Lr0 impl) = nu (ocpSize impl) ! 0" "cols (ric_Lr0 impl) = nu (ocpSize impl) ! 0"
    "rows (inverse_m (ric_Lr0 impl)) = nu (ocpSize impl) ! 0"
    "cols (inverse_m (ric_Lr0 impl)) = nu (ocpSize impl) ! 0"
    "wf_mat (inverse_m (ric_Lr0 impl))"
    by simp_all
  note I = inverse_product [OF d assms(2) assms(3)]
  from F I show ?thesis
    by (simp add: zero_stage_Rinv_def)
qed

theorem getRiccatiZeroStage_closed_form_witness:
  "getRiccatiZeroStage ex2_impl ex2_A0 ex2_B0 ex2_b0 ex2_Q0 ex2_R0 ex2_S0 ex2_q0 ex2_r0
     = Inr (Matrix 1 1 [[2]], Matrix 2 1 [[- 2], [1]], [2], [1, - 1]) \<and>
   mmul (ric_Lr0 ex2_impl) (inverse_m (ric_Lr0 ex2_impl)) = identity 2 \<and>
   mmul (inverse_m (ric_Lr0 ex2_impl)) (ric_Lr0 ex2_impl) = identity 2 \<and>
   mmul (ric_Lr0 ex2_impl) (mtranspose (ric_Lr0 ex2_impl)) = ex2_R0 \<and>
   mmul ex2_R0 (zero_stage_Rinv (ric_Lr0 ex2_impl)) = identity 2 \<and>
   Matrix 2 1 [[- 2], [1]] = spec_K0 (zero_stage_Rinv (ric_Lr0 ex2_impl)) ex2_A0 ex2_B0 ex2_S0 (ric_P1 ex2_impl)"
proof -
  have R: "mmul (ric_Lr0 ex2_impl) (mtranspose (ric_Lr0 ex2_impl)) = ex2_R0"
    by code_simp
  from getRiccatiZeroStage_closed_form [OF ex2_run ex2_inverse] ex2_run ex2_inverse R
  show ?thesis
    by (simp add: ex2_nu0)
qed

end
